theory Spec2Isabelle
  imports Main "HOL-Library.Word"
begin

section \<open>SkillSwap backend: data model\<close>

text \<open>
  The backend of \<^verbatim>\<open>src/main.py\<close> keeps five collections of documents in a document
  store. This theory embeds the request handlers of that file as functions on an explicit
  store value: every handler takes the store and returns its response (or the raised
  exception) together with the store it leaves behind, also when it raises half-way.
\<close>

subsection \<open>Identifiers\<close>

text \<open>
  An identifier the store generates (\<^verbatim>\<open>bson.ObjectId\<close>) is twelve bytes, here a 96-bit
  word; its text form \<^verbatim>\<open>str(...)\<close> is 24 hexadecimal digits in lower case.
\<close>

type_synonym objectid = "96 word"

definition hex_digit :: "nat \<Rightarrow> char" where
  "hex_digit d = char_of (if d < 10 then 48 + d else 87 + d)"

fun hexlify :: "nat \<Rightarrow> nat \<Rightarrow> string" where
  "hexlify 0 n = []"
| "hexlify (Suc k) n = hexlify k (n div 16) @ [hex_digit (n mod 16)]"

definition str_oid :: "objectid \<Rightarrow> string" where
  "str_oid x = hexlify 24 (unat x)"

text \<open>
  \<^verbatim>\<open>ObjectId(id_str)\<close> on a string: a string of another length than 24 is refused; one of
  length 24 is handed to \<^verbatim>\<open>bytes.fromhex\<close>, which reads two hexadecimal digits (of either
  case) per byte and skips ASCII white space before a byte, and whatever bytes it returns
  become the identifier. So 24 digits give twelve bytes, and a string of 24 characters
  with white space in it gives an identifier of fewer bytes, equal to no identifier the
  store generates. Every other string raises, which is the exception that \<^verbatim>\<open>oid\<close> turns
  into a 400 response.
\<close>

datatype parsed_id = Twelve objectid | Fewer "nat list"

definition hex_value :: "char \<Rightarrow> nat option" where
  "hex_value c =
     (let n = (of_char c :: nat) in
      if 48 \<le> n \<and> n \<le> 57 then Some (n - 48)
      else if 97 \<le> n \<and> n \<le> 102 then Some (n - 87)
      else if 65 \<le> n \<and> n \<le> 70 then Some (n - 55)
      else None)"

definition is_space :: "char \<Rightarrow> bool" where
  "is_space c \<longleftrightarrow> (let n = (of_char c :: nat) in (9 \<le> n \<and> n \<le> 13) \<or> n = 32)"

fun bytes_fromhex :: "string \<Rightarrow> nat list option" where
  "bytes_fromhex [] = Some []"
| "bytes_fromhex [c] = (if is_space c then Some [] else None)"
| "bytes_fromhex (c # d # ds) =
     (if is_space c then bytes_fromhex (d # ds)
      else (case hex_value c of
              None \<Rightarrow> None
            | Some hi \<Rightarrow>
                (case hex_value d of
                   None \<Rightarrow> None
                 | Some lo \<Rightarrow> map_option ((#) (16 * hi + lo)) (bytes_fromhex ds))))"

definition int_from_bytes :: "nat list \<Rightarrow> nat" where
  "int_from_bytes bs = foldl (\<lambda>a b. 256 * a + b) 0 bs"

definition of_bytes :: "nat list \<Rightarrow> parsed_id" where
  "of_bytes bs = (if length bs = 12 then Twelve (of_nat (int_from_bytes bs)) else Fewer bs)"

definition ObjectId :: "string \<Rightarrow> parsed_id option" where
  "ObjectId id_str =
     (if length id_str = 24 then map_option of_bytes (bytes_fromhex id_str) else None)"

text \<open>
  A string of hexadecimal digits read as one number, most significant digit first; it
  relates the text form of a generated identifier to the word.
\<close>

fun fromhex :: "nat \<Rightarrow> string \<Rightarrow> nat option" where
  "fromhex acc [] = Some acc"
| "fromhex acc (c # cs) =
     (case hex_value c of None \<Rightarrow> None | Some d \<Rightarrow> fromhex (16 * acc + d) cs)"

datatype error = HTTPException nat string | Uncaught string

definition oid :: "string \<Rightarrow> error + parsed_id" where
  "oid id_str =
     (case ObjectId id_str of
        None \<Rightarrow> Inl (HTTPException 400 ''Invalid id'')
      | Some x \<Rightarrow> Inr x)"

subsection \<open>Request models and documents\<close>

record UserCreate =
  name :: string
  email :: string
  bio :: "string option"
  avatar_url :: "string option"
  teach_skills :: "string list"
  learn_skills :: "string list"
  location :: "string option"
  availability :: "string option"

text \<open>
  A stored profile is the dumped \<^verbatim>\<open>UserCreate\<close> payload; the \<^verbatim>\<open>skillcoins\<close> field is
  absent (\<open>None\<close>) until the first increment creates it.
\<close>

record Userprofile = UserCreate +
  skillcoins :: "int option"

record SwipeAction =
  user_id :: string
  target_id :: string
  action :: string

record Match =
  user_a :: string
  user_b :: string
  match_status :: string

record SessionCreate =
  match_id :: string
  topic :: "string option"
  scheduled_time :: "string option"
  mode :: string

record Session = SessionCreate +
  host_id :: string
  guest_id :: string
  session_status :: string

record Rewardtransaction =
  reward_user_id :: string
  amount :: int
  reason :: string

text \<open>A document of a collection: the store's \<^verbatim>\<open>_id\<close> and the fields written by the code.\<close>

record 'a document =
  doc_id :: objectid
  content :: 'a

text \<open>A document as the handlers return it: \<^verbatim>\<open>_id\<close> popped, its text form under \<^verbatim>\<open>id\<close>.\<close>

record 'a out =
  out_id :: string
  out_content :: 'a

record 'a scored = "'a out" +
  score :: int

record store =
  db_userprofile :: "Userprofile document list"
  db_swipe :: "SwipeAction document list"
  db_match :: "Match document list"
  db_session :: "Session document list"
  db_rewardtransaction :: "Rewardtransaction document list"

definition empty_store :: store where
  "empty_store =
     \<lparr>db_userprofile = [], db_swipe = [], db_match = [], db_session = [],
      db_rewardtransaction = []\<rparr>"

subsection \<open>The store adapter\<close>

text \<open>
  Modelled from the spec: the module \<^verbatim>\<open>database\<close> (\<^verbatim>\<open>db\<close>, \<^verbatim>\<open>create_document\<close>) is not among
  the sources. The spec describes it as a document store with insert-and-return-id,
  find-one-by-filter, find-many-by-filter and update-by-id (field set and field
  increment). A collection is the list of its documents in insertion order; the
  identifier the store generates for an inserted document is an argument \<open>new_id\<close>.
\<close>

definition create_document :: "objectid \<Rightarrow> 'a \<Rightarrow> 'a document list \<Rightarrow> string \<times> 'a document list" where
  "create_document new_id data coll =
     (str_oid new_id, coll @ [\<lparr>doc_id = new_id, content = data\<rparr>])"

definition insert_one :: "objectid \<Rightarrow> 'a \<Rightarrow> 'a document list \<Rightarrow> 'a document list" where
  "insert_one new_id data coll = coll @ [\<lparr>doc_id = new_id, content = data\<rparr>]"

definition find_one :: "('a \<Rightarrow> bool) \<Rightarrow> 'a list \<Rightarrow> 'a option" where
  "find_one flt coll = List.find flt coll"

definition find_many :: "('a \<Rightarrow> bool) \<Rightarrow> 'a list \<Rightarrow> 'a list" where
  "find_many flt coll = filter flt coll"

fun update_one :: "('a \<Rightarrow> bool) \<Rightarrow> ('a \<Rightarrow> 'a) \<Rightarrow> 'a list \<Rightarrow> 'a list" where
  "update_one flt upd [] = []"
| "update_one flt upd (d # ds) =
     (if flt d then upd d # ds else d # update_one flt upd ds)"

text \<open>The filter \<^verbatim>\<open>{"_id": i}\<close>: the document's identifier is the twelve-byte identifier \<open>i\<close>.\<close>

definition by_id :: "parsed_id \<Rightarrow> 'a document \<Rightarrow> bool" where
  "by_id i d \<longleftrightarrow> Twelve (doc_id d) = i"

definition to_out :: "'a document \<Rightarrow> 'a out" where
  "to_out d = \<lparr>out_id = str_oid (doc_id d), out_content = content d\<rparr>"

section \<open>The request handlers\<close>

subsection \<open>Users\<close>

definition model_dump :: "UserCreate \<Rightarrow> Userprofile" where
  "model_dump payload =
     \<lparr>name = name payload, email = email payload, bio = bio payload,
      avatar_url = avatar_url payload, teach_skills = teach_skills payload,
      learn_skills = learn_skills payload, location = location payload,
      availability = availability payload, skillcoins = None\<rparr>"

text \<open>
  \<^verbatim>\<open>create_or_get_user\<close>: look the email up; return the first profile that has it, or insert
  the dumped payload and read the new document back by its identifier. The two reads
  after the insertion raise in the source when they find nothing (\<^verbatim>\<open>ObjectId(doc_id)\<close>
  on a string that is no identifier, \<^verbatim>\<open>user.pop\<close> on \<^verbatim>\<open>None\<close>).
\<close>

definition create_or_get_user ::
  "UserCreate \<Rightarrow> objectid \<Rightarrow> store \<Rightarrow> (error + Userprofile out) \<times> store" where
  "create_or_get_user payload new_id db =
     (case find_one (\<lambda>d. email (content d) = email payload) (db_userprofile db) of
        Some existing \<Rightarrow> (Inr (to_out existing), db)
      | None \<Rightarrow>
          (let (doc_id', coll) = create_document new_id (model_dump payload) (db_userprofile db);
               db1 = db\<lparr>db_userprofile := coll\<rparr>
           in case ObjectId doc_id' of
                None \<Rightarrow> (Inl (Uncaught ''InvalidId''), db1)
              | Some i \<Rightarrow>
                  (case find_one (by_id i) (db_userprofile db1) of
                     None \<Rightarrow> (Inl (Uncaught ''TypeError''), db1)
                   | Some user \<Rightarrow> (Inr (to_out user), db1))))"

definition list_users :: "store \<Rightarrow> Userprofile out list" where
  "list_users db = map to_out (db_userprofile db)"

subsection \<open>Recommendations\<close>

text \<open>
  \<^verbatim>\<open>str.lower\<close> is Python's built-in case mapping of a whole string, which follows the
  Unicode case tables. It is the argument \<open>str_lower\<close> of the handler, so that the handler
  is modelled for every string. On a string of ASCII characters \<^verbatim>\<open>str.lower\<close> raises each
  character code from 65 to 90 by 32 and keeps every other character (\<open>ascii_lower\<close>);
  \<open>lowers_ascii\<close> says of a case mapping that it does so.
\<close>

definition ascii_lower_char :: "char \<Rightarrow> char" where
  "ascii_lower_char c =
     (let n = (of_char c :: nat) in if 65 \<le> n \<and> n \<le> 90 then char_of (n + 32) else c)"

definition ascii_lower :: "string \<Rightarrow> string" where
  "ascii_lower s = map ascii_lower_char s"

definition is_ascii :: "string \<Rightarrow> bool" where
  "is_ascii s \<longleftrightarrow> (\<forall>c\<in>set s. (of_char c :: nat) < 128)"

definition lowers_ascii :: "(string \<Rightarrow> string) \<Rightarrow> bool" where
  "lowers_ascii str_lower \<longleftrightarrow> (\<forall>s. is_ascii s \<longrightarrow> str_lower s = ascii_lower s)"

text \<open>The body of the loop over the candidates: the score of one candidate \<open>c\<close>.\<close>

definition candidate_score ::
  "(string \<Rightarrow> string) \<Rightarrow> string set \<Rightarrow> string set \<Rightarrow> Userprofile document \<Rightarrow> int" where
  "candidate_score str_lower my_teach my_learn c =
     (let teach = set (map str_lower (teach_skills (content c)));
          learn = set (map str_lower (learn_skills (content c)));
          score0 = 0;
          score1 = score0 + int (card (my_teach \<inter> learn)) * 3;
          score2 = score1 + int (card (teach \<inter> my_learn)) * 3;
          score3 = score2 + int (card ((my_teach \<union> my_learn) \<inter> (teach \<union> learn)))
      in score3)"

definition c_copy :: "Userprofile document \<Rightarrow> int \<Rightarrow> Userprofile scored" where
  "c_copy c sc = \<lparr>out_id = str_oid (doc_id c), out_content = content c, score = sc\<rparr>"

fun score_loop ::
  "(string \<Rightarrow> string) \<Rightarrow> string set \<Rightarrow> string set \<Rightarrow> Userprofile document list \<Rightarrow>
   Userprofile scored list \<Rightarrow> Userprofile scored list" where
  "score_loop str_lower my_teach my_learn [] scored = scored"
| "score_loop str_lower my_teach my_learn (c # cs) scored =
     (let sc = candidate_score str_lower my_teach my_learn c
      in score_loop str_lower my_teach my_learn cs
           (if sc > 0 then scored @ [c_copy c sc] else scored))"

text \<open>
  \<^verbatim>\<open>scored.sort(key=..., reverse=True)\<close> is a stable sort by descending score: entries of
  equal score keep their order. \<^verbatim>\<open>scored[:limit]\<close> is Python's slice: a negative
  \<open>limit\<close> counts from the end of the list.
\<close>

definition sort_reverse :: "Userprofile scored list \<Rightarrow> Userprofile scored list" where
  "sort_reverse xs = sort_key (\<lambda>x. - score x) xs"

definition slice_to :: "int \<Rightarrow> 'a list \<Rightarrow> 'a list" where
  "slice_to limit xs =
     (if 0 \<le> limit then take (nat limit) xs
      else take (length xs - nat (- limit)) xs)"

definition recommendations ::
  "(string \<Rightarrow> string) \<Rightarrow> string \<Rightarrow> int \<Rightarrow> store \<Rightarrow> error + Userprofile scored list" where
  "recommendations str_lower uid limit db =
     (case oid uid of
        Inl e \<Rightarrow> Inl e
      | Inr i \<Rightarrow>
          (case find_one (by_id i) (db_userprofile db) of
             None \<Rightarrow> Inl (HTTPException 404 ''User not found'')
           | Some me \<Rightarrow>
               (let candidates = find_many (\<lambda>d. \<not> by_id i d) (db_userprofile db);
                    my_teach = set (map str_lower (teach_skills (content me)));
                    my_learn = set (map str_lower (learn_skills (content me)));
                    scored = score_loop str_lower my_teach my_learn candidates []
                in Inr (slice_to limit (sort_reverse scored)))))"

subsection \<open>Swipes and matches\<close>

datatype swipe_result = Recorded | Matched string

definition mutual_filter :: "SwipeAction \<Rightarrow> SwipeAction document \<Rightarrow> bool" where
  "mutual_filter payload d \<longleftrightarrow>
     user_id (content d) = target_id payload \<and> target_id (content d) = user_id payload \<and>
     action (content d) = ''like''"

definition existing_filter :: "SwipeAction \<Rightarrow> Match document \<Rightarrow> bool" where
  "existing_filter payload m \<longleftrightarrow>
     (user_a (content m) = user_id payload \<and> user_b (content m) = target_id payload) \<or>
     (user_a (content m) = target_id payload \<and> user_b (content m) = user_id payload)"

text \<open>
  \<^verbatim>\<open>swipe\<close>: \<open>swipe_id\<close> is the identifier the store gives the swipe document,
  \<open>new_match_id\<close> the one it gives the match document when one is created.
\<close>

definition swipe ::
  "SwipeAction \<Rightarrow> objectid \<Rightarrow> objectid \<Rightarrow> store \<Rightarrow> (error + swipe_result) \<times> store" where
  "swipe payload swipe_id new_match_id db =
     (if action payload \<notin> {''like'', ''pass''}
      then (Inl (HTTPException 400 ''Invalid action''), db)
      else
        (let db1 = db\<lparr>db_swipe := snd (create_document swipe_id payload (db_swipe db))\<rparr>
         in if action payload = ''like''
            then (case find_one (mutual_filter payload) (db_swipe db1) of
                    Some mutual \<Rightarrow>
                      (case find_one (existing_filter payload) (db_match db1) of
                         None \<Rightarrow>
                           (let (match_id', coll) =
                                  create_document new_match_id
                                    \<lparr>user_a = user_id payload, user_b = target_id payload,
                                     match_status = ''active''\<rparr>
                                    (db_match db1)
                            in (Inr (Matched match_id'), db1\<lparr>db_match := coll\<rparr>))
                       | Some existing \<Rightarrow> (Inr (Matched (str_oid (doc_id existing))), db1))
                  | None \<Rightarrow> (Inr Recorded, db1))
            else (Inr Recorded, db1)))"

record match_out =
  mo_id :: string
  other :: "Userprofile out option"

fun enrich ::
  "string \<Rightarrow> Userprofile document list \<Rightarrow> Match document list \<Rightarrow> match_out list \<Rightarrow>
   error + match_out list" where
  "enrich uid users [] enriched = Inr enriched"
| "enrich uid users (m # ms) enriched =
     (let other_id = (if user_a (content m) = uid then user_b (content m) else user_a (content m))
      in case oid other_id of
           Inl e \<Rightarrow> Inl e
         | Inr i \<Rightarrow>
             enrich uid users ms
               (enriched @
                [\<lparr>mo_id = str_oid (doc_id m),
                  other = map_option to_out (find_one (by_id i) users)\<rparr>]))"

definition get_matches :: "string \<Rightarrow> store \<Rightarrow> error + match_out list" where
  "get_matches uid db =
     (let ms = find_many
                 (\<lambda>m. (user_a (content m) = uid \<or> user_b (content m) = uid) \<and>
                      match_status (content m) = ''active'')
                 (db_match db)
      in enrich uid (db_userprofile db) ms [])"

subsection \<open>Sessions and rewards\<close>

definition create_session ::
  "SessionCreate \<Rightarrow> objectid \<Rightarrow> store \<Rightarrow> (error + string) \<times> store" where
  "create_session payload new_id db =
     (case oid (match_id payload) of
        Inl e \<Rightarrow> (Inl e, db)
      | Inr i \<Rightarrow>
          (case find_one (by_id i) (db_match db) of
             None \<Rightarrow> (Inl (HTTPException 404 ''Match not found''), db)
           | Some match \<Rightarrow>
               (let (session_id, coll) =
                      create_document new_id
                        \<lparr>match_id = match_id payload, topic = topic payload,
                         scheduled_time = scheduled_time payload, mode = mode payload,
                         host_id = user_a (content match), guest_id = user_b (content match),
                         session_status = ''scheduled''\<rparr>
                        (db_session db)
                in (Inr session_id, db\<lparr>db_session := coll\<rparr>))))"

definition set_status :: "string \<Rightarrow> Session document \<Rightarrow> Session document" where
  "set_status v d = d\<lparr>content := (content d)\<lparr>session_status := v\<rparr>\<rparr>"

definition balance_of :: "Userprofile \<Rightarrow> int" where
  "balance_of u = (case skillcoins u of None \<Rightarrow> 0 | Some c \<Rightarrow> c)"

definition inc_skillcoins :: "int \<Rightarrow> Userprofile document \<Rightarrow> Userprofile document" where
  "inc_skillcoins n d = d\<lparr>content := (content d)\<lparr>skillcoins := Some (balance_of (content d) + n)\<rparr>\<rparr>"

text \<open>
  The loop of \<^verbatim>\<open>complete_session\<close> over host and guest, each paired with the identifier
  the store gives its ledger entry. The entry is inserted before \<^verbatim>\<open>oid(uid)\<close> is
  evaluated, so a user id that is no identifier raises after the insertion, and what was
  written so far stays.
\<close>

fun reward_loop ::
  "string \<Rightarrow> int \<Rightarrow> (string \<times> objectid) list \<Rightarrow> store \<Rightarrow> error option \<times> store" where
  "reward_loop session_id reward [] db = (None, db)"
| "reward_loop session_id reward ((uid, tx_id) # rest) db =
     (let db1 = db\<lparr>db_rewardtransaction :=
                     insert_one tx_id
                       \<lparr>reward_user_id = uid, amount = reward,
                        reason = ''Completed session '' @ session_id\<rparr>
                       (db_rewardtransaction db)\<rparr>
      in case oid uid of
           Inl e \<Rightarrow> (Some e, db1)
         | Inr i \<Rightarrow>
             reward_loop session_id reward rest
               (db1\<lparr>db_userprofile :=
                      update_one (by_id i) (inc_skillcoins reward) (db_userprofile db1)\<rparr>))"

record complete_out =
  status :: string
  skillcoins_awarded :: int

definition complete_session ::
  "string \<Rightarrow> objectid \<Rightarrow> objectid \<Rightarrow> store \<Rightarrow> (error + complete_out) \<times> store" where
  "complete_session session_id tx_id1 tx_id2 db =
     (case oid session_id of
        Inl e \<Rightarrow> (Inl e, db)
      | Inr i \<Rightarrow>
          (case find_one (by_id i) (db_session db) of
             None \<Rightarrow> (Inl (HTTPException 404 ''Session not found''), db)
           | Some s \<Rightarrow>
               (let db1 = db\<lparr>db_session :=
                               update_one (by_id (Twelve (doc_id s))) (set_status ''completed'')
                                 (db_session db)\<rparr>;
                    reward = 10
                in case reward_loop session_id reward
                          [(host_id (content s), tx_id1), (guest_id (content s), tx_id2)] db1 of
                     (Some e, db2) \<Rightarrow> (Inl e, db2)
                   | (None, db2) \<Rightarrow>
                       (Inr \<lparr>status = ''completed'', skillcoins_awarded = reward\<rparr>, db2))))"

definition get_skillcoins :: "string \<Rightarrow> store \<Rightarrow> error + int" where
  "get_skillcoins uid db =
     (case oid uid of
        Inl e \<Rightarrow> Inl e
      | Inr i \<Rightarrow>
          (case find_one (by_id i) (db_userprofile db) of
             None \<Rightarrow> Inl (HTTPException 404 ''User not found'')
           | Some u \<Rightarrow> Inr (balance_of (content u))))"

subsection \<open>Sequences of requests\<close>

text \<open>
  The requests that write to the store, each with the identifiers the store generates
  while it is served. \<open>run\<close> serves a list of them one after the other; the stores it
  reaches from \<open>empty_store\<close> are the ones the handlers can meet.
\<close>

datatype request =
  CreateOrGetUser UserCreate objectid
| Swipe SwipeAction objectid objectid
| CreateSession SessionCreate objectid
| CompleteSession string objectid objectid

fun handle :: "request \<Rightarrow> store \<Rightarrow> store" where
  "handle (CreateOrGetUser payload new_id) db = snd (create_or_get_user payload new_id db)"
| "handle (Swipe payload swipe_id new_match_id) db = snd (swipe payload swipe_id new_match_id db)"
| "handle (CreateSession payload new_id) db = snd (create_session payload new_id db)"
| "handle (CompleteSession session_id tx_id1 tx_id2) db =
     snd (complete_session session_id tx_id1 tx_id2 db)"

fun run :: "store \<Rightarrow> request list \<Rightarrow> store" where
  "run db [] = db"
| "run db (r # rs) = run (handle r db) rs"

text \<open>A series of swipe calls, with the response of each.\<close>

fun swipes ::
  "(SwipeAction \<times> objectid \<times> objectid) list \<Rightarrow> store \<Rightarrow> (error + swipe_result) list \<times> store" where
  "swipes [] db = ([], db)"
| "swipes ((payload, swipe_id, new_match_id) # rest) db =
     (let (r, db1) = swipe payload swipe_id new_match_id db;
          (rs, db2) = swipes rest db1
      in (r # rs, db2))"

section \<open>Notions used to state the properties\<close>

subsection \<open>The score as the specification words it\<close>

text \<open>
  The specification's formula: three times the number of skills the requester teaches and
  the candidate learns, plus three times the number the candidate teaches and the
  requester learns, plus the number of skills the two have in common at all, every skill
  string lower-cased (by \<open>lw\<close>) before the sets are formed.
\<close>

definition lowered :: "(string \<Rightarrow> string) \<Rightarrow> string list \<Rightarrow> string set" where
  "lowered lw skills = lw ` set skills"

definition spec_score :: "(string \<Rightarrow> string) \<Rightarrow> Userprofile \<Rightarrow> Userprofile \<Rightarrow> int" where
  "spec_score lw requester candidate =
     3 * int (card (lowered lw (teach_skills requester) \<inter> lowered lw (learn_skills candidate)))
   + 3 * int (card (lowered lw (teach_skills candidate) \<inter> lowered lw (learn_skills requester)))
   + int (card ((lowered lw (teach_skills requester) \<union> lowered lw (learn_skills requester)) \<inter>
                (lowered lw (teach_skills candidate) \<union> lowered lw (learn_skills candidate))))"

subsection \<open>Lower case\<close>

text \<open>
  Lower-casing as the specification means it, written as a table: each of the letters
  \<^verbatim>\<open>A\<close> to \<^verbatim>\<open>Z\<close> is replaced by its small letter and every other character is kept, so
  that two strings differing only in the case of their letters become the same string. A
  profile has ASCII skills when every string of its two skill lists is ASCII.
\<close>

definition lower_table :: "(char \<times> char) list" where
  "lower_table = zip ''ABCDEFGHIJKLMNOPQRSTUVWXYZ'' ''abcdefghijklmnopqrstuvwxyz''"

definition spec_lower_char :: "char \<Rightarrow> char" where
  "spec_lower_char c = (case map_of lower_table c of None \<Rightarrow> c | Some l \<Rightarrow> l)"

definition spec_lower :: "string \<Rightarrow> string" where
  "spec_lower s = map spec_lower_char s"

definition ascii_skills :: "Userprofile \<Rightarrow> bool" where
  "ascii_skills u \<longleftrightarrow> (\<forall>s\<in>set (teach_skills u @ learn_skills u). is_ascii s)"

subsection \<open>Matches and swipes\<close>

text \<open>
  The unordered pair of a match; the invariant of the match collection (no two matches
  for the same unordered pair, every match active); a \<^verbatim>\<open>like\<close> of \<open>a\<close> towards \<open>b\<close> on
  record; the match document \<^verbatim>\<open>swipe\<close> creates.
\<close>

definition pair_of :: "Match document \<Rightarrow> string set" where
  "pair_of m = {user_a (content m), user_b (content m)}"

definition match_inv :: "store \<Rightarrow> bool" where
  "match_inv db \<longleftrightarrow>
     distinct (map pair_of (db_match db)) \<and>
     (\<forall>m\<in>set (db_match db). match_status (content m) = ''active'')"

definition like_recorded :: "string \<Rightarrow> string \<Rightarrow> store \<Rightarrow> bool" where
  "like_recorded a b db \<longleftrightarrow>
     (\<exists>d\<in>set (db_swipe db).
        user_id (content d) = a \<and> target_id (content d) = b \<and> action (content d) = ''like'')"

definition new_match :: "SwipeAction \<Rightarrow> objectid \<Rightarrow> Match document" where
  "new_match payload new_match_id =
     \<lparr>doc_id = new_match_id,
      content = \<lparr>user_a = user_id payload, user_b = target_id payload, match_status = ''active''\<rparr>\<rparr>"

subsection \<open>Rewards\<close>

text \<open>
  The ledger entry \<^verbatim>\<open>complete_session\<close> inserts for a user, and the amount one completion
  credits to the profile a text identifier resolves to: 10 as host plus 10 as guest.
\<close>

definition reward_entry :: "string \<Rightarrow> string \<Rightarrow> objectid \<Rightarrow> Rewardtransaction document" where
  "reward_entry session_id uid tx_id =
     \<lparr>doc_id = tx_id,
      content = \<lparr>reward_user_id = uid, amount = 10, reason = ''Completed session '' @ session_id\<rparr>\<rparr>"

definition credit :: "parsed_id \<Rightarrow> parsed_id \<Rightarrow> string \<Rightarrow> int" where
  "credit h g uid = (if oid uid = Inr h then 10 else 0) + (if oid uid = Inr g then 10 else 0)"

subsection \<open>Stores built from well-formed identifiers\<close>

text \<open>
  A string is a well-formed identifier when \<^verbatim>\<open>oid\<close> does not raise on it. A request is
  well-formed when it is no swipe or a swipe whose two user ids are well-formed. The
  invariant of the stores such requests build: the users of every match and the host and
  guest of every session are well-formed identifiers.
\<close>

definition wellformed_id :: "string \<Rightarrow> bool" where
  "wellformed_id s \<longleftrightarrow> ObjectId s \<noteq> None"

fun wellformed_request :: "request \<Rightarrow> bool" where
  "wellformed_request (Swipe payload swipe_id new_match_id) \<longleftrightarrow>
     wellformed_id (user_id payload) \<and> wellformed_id (target_id payload)"
| "wellformed_request r \<longleftrightarrow> True"

definition ids_inv :: "store \<Rightarrow> bool" where
  "ids_inv db \<longleftrightarrow>
     (\<forall>m\<in>set (db_match db).
        wellformed_id (user_a (content m)) \<and> wellformed_id (user_b (content m))) \<and>
     (\<forall>s\<in>set (db_session db).
        wellformed_id (host_id (content s)) \<and> wellformed_id (guest_id (content s)))"

subsection \<open>Example data\<close>

text \<open>
  The users of the specification's scenario (A teaches Python and learns Guitar, B
  teaches Guitar and learns Python) and a third user C whose skill differs from A's only
  in case; stores reached by serving requests from the empty store.
\<close>

definition user_A :: UserCreate where
  "user_A = \<lparr>name = ''A'', email = ''a@example.org'', bio = None, avatar_url = None,
     teach_skills = [''Python''], learn_skills = [''Guitar''], location = None,
     availability = None\<rparr>"

definition user_B :: UserCreate where
  "user_B = \<lparr>name = ''B'', email = ''b@example.org'', bio = None, avatar_url = None,
     teach_skills = [''Guitar''], learn_skills = [''Python''], location = None,
     availability = None\<rparr>"

definition user_C :: UserCreate where
  "user_C = \<lparr>name = ''C'', email = ''c@example.org'', bio = None, avatar_url = None,
     teach_skills = [''GUITAR''], learn_skills = [], location = None,
     availability = None\<rparr>"

definition db_AB :: store where
  "db_AB = run empty_store [CreateOrGetUser user_A 1, CreateOrGetUser user_B 2]"

definition db_ABC :: store where
  "db_ABC = run empty_store [CreateOrGetUser user_A 1, CreateOrGetUser user_B 2, CreateOrGetUser user_C 3]"

definition like_payload :: "string \<Rightarrow> string \<Rightarrow> SwipeAction" where
  "like_payload u t = \<lparr>user_id = u, target_id = t, action = ''like''\<rparr>"

definition session_payload :: "string \<Rightarrow> SessionCreate" where
  "session_payload m = \<lparr>match_id = m, topic = Some ''Python'', scheduled_time = None, mode = ''chat''\<rparr>"

definition db_liked :: store where
  "db_liked = run empty_store [Swipe (like_payload ''alice'' ''bob'') 1 9]"

definition db_pair :: store where
  "db_pair = run empty_store
     [Swipe (like_payload ''alice'' ''bob'') 1 9, Swipe (like_payload ''bob'' ''alice'') 2 3]"

definition db_matched :: store where
  "db_matched = run empty_store
     [CreateOrGetUser user_A 1, CreateOrGetUser user_B 2,
      Swipe (like_payload ''000000000000000000000001'' ''000000000000000000000002'') 3 9,
      Swipe (like_payload ''000000000000000000000002'' ''000000000000000000000001'') 4 5]"

definition db_scheduled :: store where
  "db_scheduled = handle (CreateSession (session_payload ''000000000000000000000005'') 6) db_matched"

definition db_named :: store where
  "db_named = run empty_store
     [Swipe (like_payload ''alice'' ''bob'') 1 9,
      Swipe (like_payload ''bob'' ''alice'') 2 3,
      CreateSession (session_payload ''000000000000000000000003'') 4]"

section \<open>Properties of the store adapter and the identifier codec\<close>


lemma find_one_append:
  "find_one P (xs @ ys) = (case find_one P xs of None \<Rightarrow> find_one P ys | Some x \<Rightarrow> Some x)"
  by (induction xs) (auto simp: find_one_def)

lemma find_one_None_iff: "find_one P xs = None \<longleftrightarrow> (\<forall>x\<in>set xs. \<not> P x)"
  by (auto simp: find_one_def find_None_iff)

lemma find_one_SomeD: "find_one P xs = Some x \<Longrightarrow> P x \<and> x \<in> set xs"
  by (auto simp: find_one_def find_Some_iff)

lemma find_one_filter:
  "find_one P xs = (case filter P xs of [] \<Rightarrow> None | x # _ \<Rightarrow> Some x)"
  by (induction xs) (auto simp: find_one_def)

lemma find_one_update_one:
  assumes "\<And>d. doc_id (f d) = doc_id d"
  shows "find_one (by_id x) (update_one (by_id h) f xs) =
           map_option (\<lambda>d. if x = h then f d else d) (find_one (by_id x) xs)"
  by (induction xs) (auto simp: find_one_def by_id_def assms option.map_ident)

lemma distinct_map_filter_single:
  "distinct (map f xs) \<Longrightarrow> x \<in> set xs \<Longrightarrow> filter (\<lambda>y. f y = f x) xs = [x]"
proof (induction xs)
  case Nil
  then show ?case by simp
next
  case (Cons a xs)
  show ?case
  proof (cases "a = x")
    case True
    with Cons.prems have "f x \<notin> f ` set xs" by simp
    then have "\<forall>y\<in>set xs. f y \<noteq> f x" by (metis image_eqI)
    then have "filter (\<lambda>y. f y = f x) xs = []" by (simp add: filter_empty_conv)
    with True show ?thesis by simp
  next
    case False
    with Cons.prems have "x \<in> set xs" and "f a \<noteq> f x" by auto
    with Cons show ?thesis by simp
  qed
qed

lemma hex_value_digit: "d < 16 \<Longrightarrow> hex_value (hex_digit d) = Some d"
  by (auto simp: hex_value_def hex_digit_def Let_def)

lemma hex_not_space: "hex_value c = Some v \<Longrightarrow> \<not> is_space c"
  by (auto simp: hex_value_def is_space_def Let_def split: if_splits)

lemma hex_value_less: "hex_value c = Some v \<Longrightarrow> v < 16"
  by (auto simp: hex_value_def Let_def split: if_splits)

lemma bytes_fromhex_digits:
  assumes "\<forall>c\<in>set s. hex_value c \<noteq> None" and "even (length s)"
  shows "\<exists>bs. bytes_fromhex s = Some bs \<and> 2 * length bs = length s"
  using assms
proof (induction s rule: bytes_fromhex.induct)
  case 1
  then show ?case by simp
next
  case (2 c)
  then show ?case by simp
next
  case (3 c d ds)
  from "3.prems" obtain t b where tb: "hex_value c = Some t" "hex_value d = Some b" by auto
  then have ns: "\<not> is_space c" by (auto dest: hex_not_space)
  from "3.prems" have "\<forall>c\<in>set ds. hex_value c \<noteq> None" "even (length ds)" by simp_all
  with "3.IH"(2) [OF ns tb] obtain bs where "bytes_fromhex ds = Some bs" "2 * length bs = length ds"
    by blast
  with tb ns show ?case by simp
qed

lemma bytes_fromhex_length: "bytes_fromhex s = Some bs \<Longrightarrow> 2 * length bs \<le> length s"
proof (induction s arbitrary: bs rule: bytes_fromhex.induct)
  case 1
  then show ?case by simp
next
  case (2 c)
  then show ?case by (simp split: if_splits)
next
  case (3 c d ds)
  show ?case
  proof (cases "is_space c")
    case True
    with "3.prems" have "bytes_fromhex (d # ds) = Some bs" by simp
    from "3.IH"(1) [OF True this] show ?thesis by simp
  next
    case False
    with "3.prems" obtain t b bs' where tb: "hex_value c = Some t" "hex_value d = Some b"
        "bytes_fromhex ds = Some bs'" "bs = (16 * t + b) # bs'"
      by (auto split: option.splits)
    from "3.IH"(2) [OF False tb(1,2,3)] tb(4) show ?thesis by simp
  qed
qed

lemma bytes_fromhex_value:
  "bytes_fromhex s = Some bs \<Longrightarrow> 2 * length bs = length s \<Longrightarrow>
   fromhex acc s = Some (foldl (\<lambda>a b. 256 * a + b) acc bs)"
proof (induction s arbitrary: bs acc rule: bytes_fromhex.induct)
  case 1
  then show ?case by simp
next
  case (2 c)
  then show ?case by (simp split: if_splits)
next
  case (3 c d ds)
  show ?case
  proof (cases "is_space c")
    case True
    with "3.prems" have "bytes_fromhex (d # ds) = Some bs" by simp
    from bytes_fromhex_length [OF this] "3.prems"(2) show ?thesis by simp
  next
    case False
    with "3.prems"(1) obtain t b bs' where tb: "hex_value c = Some t" "hex_value d = Some b"
        "bytes_fromhex ds = Some bs'" "bs = (16 * t + b) # bs'"
      by (auto split: option.splits)
    with "3.prems"(2) have "2 * length bs' = length ds" by simp
    from "3.IH"(2) [OF False tb(1,2,3) this, of "256 * acc + (16 * t + b)"] tb
    show ?thesis by (simp add: algebra_simps)
  qed
qed

lemma fromhex_append:
  "fromhex acc (xs @ ys) = (case fromhex acc xs of None \<Rightarrow> None | Some a \<Rightarrow> fromhex a ys)"
  by (induction xs arbitrary: acc) (auto split: option.splits)

lemma fromhex_hexlify: "fromhex acc (hexlify k n) = Some (acc * 16 ^ k + n mod 16 ^ k)"
proof (induction k arbitrary: n)
  case 0
  show ?case by simp
next
  case (Suc k)
  have "n mod 16 ^ Suc k = (n div 16 mod 16 ^ k) * 16 + n mod 16"
    by (simp add: mod_mult2_eq)
  then show ?case
    by (simp add: fromhex_append Suc hex_value_digit algebra_simps)
qed

lemma length_hexlify: "length (hexlify k n) = k"
  by (induction k arbitrary: n) auto

lemma hexlify_digits: "\<forall>c\<in>set (hexlify k n). hex_value c \<noteq> None"
  by (induction k arbitrary: n) (auto simp: hex_value_digit)

text \<open>Reading the text form of an identifier gives the identifier back.\<close>

lemma ObjectId_str_oid: "ObjectId (str_oid x) = Some (Twelve x)"
proof -
  let ?s = "hexlify 24 (unat x)"
  obtain bs where bs: "bytes_fromhex ?s = Some bs" "2 * length bs = length ?s"
    using bytes_fromhex_digits [OF hexlify_digits, of 24 "unat x"] by (auto simp: length_hexlify)
  have "unat x < 2 ^ 96" using unsigned_less [of x] by simp
  then have "unat x mod 16 ^ 24 = unat x" by simp
  with bytes_fromhex_value [OF bs, of 0] have "int_from_bytes bs = unat x"
    by (simp add: fromhex_hexlify int_from_bytes_def del: hexlify.simps)
  moreover from bs(2) have "length bs = 12" by (simp add: length_hexlify)
  ultimately show ?thesis
    using bs(1) by (simp add: ObjectId_def str_oid_def length_hexlify of_bytes_def del: hexlify.simps)
qed

lemma oid_str_oid: "oid (str_oid x) = Inr (Twelve x)"
  by (simp add: oid_def ObjectId_str_oid)

subsection \<open>Evaluation of the example data\<close>

lemma oid_1: "oid ''000000000000000000000001'' = Inr (Twelve 1)"
  by (simp add: oid_def ObjectId_def hex_value_def is_space_def of_bytes_def int_from_bytes_def)

lemma str_oid_1: "str_oid 1 = ''000000000000000000000001''" by code_simp
lemma oid_7: "oid ''000000000000000000000007'' = Inr (Twelve 7)"
  by (simp add: oid_def ObjectId_def hex_value_def is_space_def of_bytes_def int_from_bytes_def)

lemma str_oid_2: "str_oid 2 = ''000000000000000000000002''"
  by code_simp

lemma str_oid_3: "str_oid 3 = ''000000000000000000000003''"
  by code_simp

lemma str_oid_5: "str_oid 5 = ''000000000000000000000005''" by code_simp
lemma str_oid_6: "str_oid 6 = ''000000000000000000000006''" by code_simp
lemma str_oid_4: "str_oid 4 = ''000000000000000000000004''" by code_simp
lemma oid_2: "oid ''000000000000000000000002'' = Inr (Twelve 2)"
  by (simp add: oid_def ObjectId_def hex_value_def is_space_def of_bytes_def int_from_bytes_def)
lemma oid_3: "oid ''000000000000000000000003'' = Inr (Twelve 3)"
  by (simp add: oid_def ObjectId_def hex_value_def is_space_def of_bytes_def int_from_bytes_def)
lemma oid_4: "oid ''000000000000000000000004'' = Inr (Twelve 4)"
  by (simp add: oid_def ObjectId_def hex_value_def is_space_def of_bytes_def int_from_bytes_def)
lemma oid_5: "oid ''000000000000000000000005'' = Inr (Twelve 5)"
  by (simp add: oid_def ObjectId_def hex_value_def is_space_def of_bytes_def int_from_bytes_def)
lemma oid_6: "oid ''000000000000000000000006'' = Inr (Twelve 6)"
  by (simp add: oid_def ObjectId_def hex_value_def is_space_def of_bytes_def int_from_bytes_def)
lemma oid_bad: "oid ''bob'' = Inl (HTTPException 400 ''Invalid id'')"
   "oid ''alice'' = Inl (HTTPException 400 ''Invalid id'')"
   "oid ''not-an-id'' = Inl (HTTPException 400 ''Invalid id'')"
  by (simp_all add: oid_def ObjectId_def)

lemma db_AB_eq: "db_AB = empty_store\<lparr>db_userprofile :=
    [\<lparr>doc_id = 1, content = model_dump user_A\<rparr>, \<lparr>doc_id = 2, content = model_dump user_B\<rparr>]\<rparr>"
  by (simp add: db_AB_def create_or_get_user_def empty_store_def find_one_def
      create_document_def ObjectId_str_oid by_id_def user_A_def user_B_def model_dump_def)

lemma db_ABC_eq: "db_ABC = empty_store\<lparr>db_userprofile :=
    [\<lparr>doc_id = 1, content = model_dump user_A\<rparr>, \<lparr>doc_id = 2, content = model_dump user_B\<rparr>,
     \<lparr>doc_id = 3, content = model_dump user_C\<rparr>]\<rparr>"
  by (simp add: db_ABC_def create_or_get_user_def empty_store_def find_one_def
      create_document_def ObjectId_str_oid by_id_def user_A_def user_B_def user_C_def model_dump_def)

lemma me_AB: "find_one (by_id (Twelve 1)) (db_userprofile db_AB) = Some \<lparr>doc_id = 1, content = model_dump user_A\<rparr>"
  by (simp add: db_AB_eq empty_store_def find_one_def by_id_def)

lemma me_ABC: "find_one (by_id (Twelve 1)) (db_userprofile db_ABC) = Some \<lparr>doc_id = 1, content = model_dump user_A\<rparr>"
  by (simp add: db_ABC_eq empty_store_def find_one_def by_id_def)

lemma db_liked_eq:
  "db_liked = empty_store\<lparr>db_swipe := [\<lparr>doc_id = 1, content = like_payload ''alice'' ''bob''\<rparr>]\<rparr>"
  by (simp add: db_liked_def empty_store_def find_one_def create_document_def
      swipe_def like_payload_def mutual_filter_def)

lemma liked: "like_recorded ''alice'' ''bob'' (run empty_store [Swipe (like_payload ''alice'' ''bob'') 1 9])"
  using db_liked_eq by (simp add: db_liked_def like_recorded_def like_payload_def empty_store_def)

lemma db_pair_eq:
  "db_pair =
     \<lparr>db_userprofile = [],
      db_swipe = [\<lparr>doc_id = 1, content = like_payload ''alice'' ''bob''\<rparr>,
                  \<lparr>doc_id = 2, content = like_payload ''bob'' ''alice''\<rparr>],
      db_match = [\<lparr>doc_id = 3, content = \<lparr>user_a = ''bob'', user_b = ''alice'',
                    match_status = ''active''\<rparr>\<rparr>],
      db_session = [], db_rewardtransaction = []\<rparr>"
  by (simp add: db_pair_def empty_store_def find_one_def create_document_def
      swipe_def like_payload_def mutual_filter_def existing_filter_def)

lemma db_matched_eq:
  "db_matched =
     \<lparr>db_userprofile = [\<lparr>doc_id = 1, content = model_dump user_A\<rparr>,
                         \<lparr>doc_id = 2, content = model_dump user_B\<rparr>],
      db_swipe = [\<lparr>doc_id = 3, content = like_payload ''000000000000000000000001'' ''000000000000000000000002''\<rparr>,
                  \<lparr>doc_id = 4, content = like_payload ''000000000000000000000002'' ''000000000000000000000001''\<rparr>],
      db_match = [\<lparr>doc_id = 5, content = \<lparr>user_a = ''000000000000000000000002'',
                    user_b = ''000000000000000000000001'', match_status = ''active''\<rparr>\<rparr>],
      db_session = [], db_rewardtransaction = []\<rparr>"
  by (simp add: db_matched_def create_or_get_user_def empty_store_def find_one_def
      create_document_def ObjectId_str_oid by_id_def user_A_def user_B_def model_dump_def
      swipe_def like_payload_def mutual_filter_def existing_filter_def)

lemma db_scheduled_eq:
  "db_scheduled =
     \<lparr>db_userprofile = [\<lparr>doc_id = 1, content = model_dump user_A\<rparr>,
                         \<lparr>doc_id = 2, content = model_dump user_B\<rparr>],
      db_swipe = [\<lparr>doc_id = 3, content = like_payload ''000000000000000000000001'' ''000000000000000000000002''\<rparr>,
                  \<lparr>doc_id = 4, content = like_payload ''000000000000000000000002'' ''000000000000000000000001''\<rparr>],
      db_match = [\<lparr>doc_id = 5, content = \<lparr>user_a = ''000000000000000000000002'',
                    user_b = ''000000000000000000000001'', match_status = ''active''\<rparr>\<rparr>],
      db_session = [\<lparr>doc_id = 6, content = \<lparr>match_id = ''000000000000000000000005'',
                      topic = Some ''Python'', scheduled_time = None, mode = ''chat'',
                      host_id = ''000000000000000000000002'',
                      guest_id = ''000000000000000000000001'', session_status = ''scheduled''\<rparr>\<rparr>],
      db_rewardtransaction = []\<rparr>"
  by (simp add: db_scheduled_def db_matched_eq create_session_def session_payload_def oid_5
      find_one_def by_id_def create_document_def)

lemma db_named_eq:
  "db_named =
     \<lparr>db_userprofile = [],
      db_swipe = [\<lparr>doc_id = 1, content = like_payload ''alice'' ''bob''\<rparr>,
                  \<lparr>doc_id = 2, content = like_payload ''bob'' ''alice''\<rparr>],
      db_match = [\<lparr>doc_id = 3, content = \<lparr>user_a = ''bob'', user_b = ''alice'',
                    match_status = ''active''\<rparr>\<rparr>],
      db_session = [\<lparr>doc_id = 4, content = \<lparr>match_id = ''000000000000000000000003'',
                      topic = Some ''Python'', scheduled_time = None, mode = ''chat'',
                      host_id = ''bob'', guest_id = ''alice'', session_status = ''scheduled''\<rparr>\<rparr>],
      db_rewardtransaction = []\<rparr>"
  by (simp add: db_named_def empty_store_def find_one_def create_document_def by_id_def
      swipe_def like_payload_def mutual_filter_def existing_filter_def create_session_def
      session_payload_def oid_3)

section \<open>Recommendations\<close>

lemma ascii_lower_char_spec: "ascii_lower_char c = spec_lower_char c"
proof -
  have "\<forall>c\<in>set (Enum.enum :: char list). ascii_lower_char c = spec_lower_char c"
    by code_simp
  then show ?thesis by (simp add: enum_UNIV)
qed

lemma ascii_lower_spec: "ascii_lower s = spec_lower s"
  by (simp add: ascii_lower_def spec_lower_def ascii_lower_char_spec)

lemma lowers_ascii_ascii_lower: "lowers_ascii ascii_lower"
  by (simp add: lowers_ascii_def)

lemma lowered_ascii:
  assumes "lowers_ascii lw" and "\<forall>s\<in>set skills. is_ascii s"
  shows "lowered lw skills = lowered spec_lower skills"
  using assms by (auto simp: lowered_def lowers_ascii_def ascii_lower_spec)

lemma spec_score_ascii:
  assumes "lowers_ascii lw" and "ascii_skills requester" and "ascii_skills candidate"
  shows "spec_score lw requester candidate = spec_score spec_lower requester candidate"
proof -
  from assms(2,3) have
    "\<forall>s\<in>set (teach_skills requester). is_ascii s" "\<forall>s\<in>set (learn_skills requester). is_ascii s"
    "\<forall>s\<in>set (teach_skills candidate). is_ascii s" "\<forall>s\<in>set (learn_skills candidate). is_ascii s"
    by (auto simp: ascii_skills_def)
  then show ?thesis
    by (simp add: spec_score_def lowered_ascii [OF assms(1)])
qed

lemma candidate_score_spec:
  "candidate_score lw (lw ` set (teach_skills me)) (lw ` set (learn_skills me)) c
     = spec_score lw me (content c)"
  by (simp add: candidate_score_def spec_score_def lowered_def Let_def Int_commute)

lemma score_loop_eq:
  "score_loop lw mt ml cs acc =
     acc @ map (\<lambda>c. c_copy c (candidate_score lw mt ml c))
             (filter (\<lambda>c. 0 < candidate_score lw mt ml c) cs)"
  by (induction cs arbitrary: acc) (simp_all add: Let_def)

lemma recommendations_eq:
  assumes "oid uid = Inr i" and "find_one (by_id i) (db_userprofile db) = Some me"
  shows "recommendations lw uid limit db =
     Inr (slice_to limit (sort_reverse
       (map (\<lambda>c. c_copy c (spec_score lw (content me) (content c)))
          (filter (\<lambda>c. 0 < spec_score lw (content me) (content c))
             (filter (\<lambda>c. \<not> by_id i c) (db_userprofile db))))))"
  using assms
  by (simp add: recommendations_def Let_def score_loop_eq candidate_score_spec find_many_def)

lemma slice_to_take: "\<exists>n. slice_to limit xs = take n xs"
  by (auto simp: slice_to_def)

lemma set_slice_to: "set (slice_to limit xs) \<subseteq> set xs"
  by (auto simp: slice_to_def dest: in_set_takeD)

lemma length_slice_to: "0 \<le> limit \<Longrightarrow> int (length (slice_to limit xs)) \<le> limit"
  by (simp add: slice_to_def)

lemma set_sort_reverse: "set (sort_reverse xs) = set xs"
  by (simp add: sort_reverse_def)

lemma sorted_sort_reverse: "sorted_wrt (\<lambda>a b. score b \<le> score a) (sort_reverse xs)"
proof -
  have "sorted (map (\<lambda>x. - score x) (sort_key (\<lambda>x. - score x) xs))"
    by (rule sorted_sort_key)
  then show ?thesis
    by (simp add: sort_reverse_def sorted_map)
qed

lemma sorted_slice_to:
  "sorted_wrt R xs \<Longrightarrow> sorted_wrt R (slice_to limit xs)"
  using slice_to_take [of limit xs] by (auto simp: sorted_wrt_take)

subsection \<open>Evaluation of the scores of the example users\<close>

lemma spec_lower_ex: "spec_lower ''Python'' = ''python''" "spec_lower ''Guitar'' = ''guitar''"
    "spec_lower ''GUITAR'' = ''guitar''"
  by code_simp+

lemma ascii_skills_ex:
  "ascii_skills (model_dump user_A)" "ascii_skills (model_dump user_B)"
  "ascii_skills (model_dump user_C)"
  by (simp_all add: ascii_skills_def is_ascii_def model_dump_def user_A_def user_B_def user_C_def)

lemma spec_score_ex:
  "spec_score spec_lower (model_dump user_A) (model_dump user_B) = 8"
  "spec_score spec_lower (model_dump user_A) (model_dump user_C) = 4"
  by (simp_all add: spec_score_def lowered_def user_A_def user_B_def user_C_def model_dump_def
      spec_lower_ex)

lemma score_ex:
  "spec_score ascii_lower (model_dump user_A) (model_dump user_B) = 8"
  "spec_score ascii_lower (model_dump user_A) (model_dump user_C) = 4"
  by (simp_all add: spec_score_ascii [OF lowers_ascii_ascii_lower] ascii_skills_ex spec_score_ex)

lemma recommendations_AB_ex:
  "recommendations ascii_lower ''000000000000000000000001'' limit db_AB =
     Inr (slice_to limit
       [\<lparr>out_id = ''000000000000000000000002'', out_content = model_dump user_B, score = 8\<rparr>])"
proof -
  have "recommendations ascii_lower ''000000000000000000000001'' limit db_AB =
     Inr (slice_to limit (sort_reverse
       (map (\<lambda>c. c_copy c (spec_score ascii_lower (model_dump user_A) (content c)))
          (filter (\<lambda>c. 0 < spec_score ascii_lower (model_dump user_A) (content c))
             (filter (\<lambda>c. \<not> by_id (Twelve 1) c) (db_userprofile db_AB))))))"
    using recommendations_eq [OF oid_1 me_AB, of ascii_lower limit] by simp
  then show ?thesis
    by (simp add: db_AB_eq empty_store_def by_id_def score_ex c_copy_def sort_reverse_def
        str_oid_2)
qed

lemma recommendations_ex:
  "recommendations ascii_lower ''000000000000000000000001'' limit db_ABC =
     Inr (slice_to limit
       [\<lparr>out_id = ''000000000000000000000002'', out_content = model_dump user_B, score = 8\<rparr>,
        \<lparr>out_id = ''000000000000000000000003'', out_content = model_dump user_C, score = 4\<rparr>])"
proof -
  have "recommendations ascii_lower ''000000000000000000000001'' limit db_ABC =
     Inr (slice_to limit (sort_reverse
       (map (\<lambda>c. c_copy c (spec_score ascii_lower (model_dump user_A) (content c)))
          (filter (\<lambda>c. 0 < spec_score ascii_lower (model_dump user_A) (content c))
             (filter (\<lambda>c. \<not> by_id (Twelve 1) c) (db_userprofile db_ABC))))))"
    using recommendations_eq [OF oid_1 me_ABC, of ascii_lower limit] by simp
  then show ?thesis
    by (simp add: db_ABC_eq empty_store_def by_id_def score_ex c_copy_def sort_reverse_def
        str_oid_2 str_oid_3)
qed

text \<open>
  C1. For a requester whose identifier resolves to the profile \<open>me\<close>, the handler returns
  the candidates (every profile but the requester's) whose score by the specification's
  formula is positive, each annotated with exactly that score, sorted and cut to the
  limit; so the score of every returned entry is three times the number of lower-cased
  skills the requester teaches and the entry learns, plus three times the number the
  entry teaches and the requester learns, plus the number of lower-cased skills the two
  share, where lower-casing is what \<^verbatim>\<open>str.lower\<close> does. For profiles with ASCII skills
  that is the formula over the skills lower-cased by the table of the letters, for each
  candidate and for the list the handler returns, so that skills differing only in case
  count as the same skill. In the scenario of the specification (A: Python/Guitar, B:
  Guitar/Python) B is returned to A with score 8, and C, who teaches \<^verbatim>\<open>GUITAR\<close>, with
  score 4: the statement that follows the theorem.
\<close>

theorem recommendations_score:
  assumes "oid uid = Inr i" and "find_one (by_id i) (db_userprofile db) = Some me"
  shows "recommendations str_lower uid limit db =
           Inr (slice_to limit (sort_reverse
             (map (\<lambda>c. c_copy c (spec_score str_lower (content me) (content c)))
                (filter (\<lambda>c. \<not> by_id i c \<and> 0 < spec_score str_lower (content me) (content c))
                   (db_userprofile db)))))
         \<and> (\<forall>rs. recommendations str_lower uid limit db = Inr rs \<longrightarrow>
               (\<forall>r\<in>set rs. score r = spec_score str_lower (content me) (out_content r)))
         \<and> (lowers_ascii str_lower \<longrightarrow>
               (\<forall>c. ascii_skills (content me) \<and> ascii_skills c \<longrightarrow>
                  spec_score str_lower (content me) c = spec_score spec_lower (content me) c))
         \<and> (lowers_ascii str_lower \<and> (\<forall>u\<in>set (db_userprofile db). ascii_skills (content u)) \<longrightarrow>
               recommendations str_lower uid limit db =
                 Inr (slice_to limit (sort_reverse
                   (map (\<lambda>c. c_copy c (spec_score spec_lower (content me) (content c)))
                      (filter (\<lambda>c. \<not> by_id i c \<and>
                                    0 < spec_score spec_lower (content me) (content c))
                         (db_userprofile db))))))"
proof -
  let ?L = "map (\<lambda>c. c_copy c (spec_score str_lower (content me) (content c)))
                (filter (\<lambda>c. \<not> by_id i c \<and> 0 < spec_score str_lower (content me) (content c))
                   (db_userprofile db))"
  have eq: "recommendations str_lower uid limit db = Inr (slice_to limit (sort_reverse ?L))"
    using recommendations_eq [OF assms, of str_lower limit] by (simp add: conj_commute)
  have "score r = spec_score str_lower (content me) (out_content r)" if "r \<in> set ?L" for r
    using that by (auto simp: c_copy_def)
  then have "\<forall>r\<in>set (slice_to limit (sort_reverse ?L)).
               score r = spec_score str_lower (content me) (out_content r)"
    using set_slice_to [of limit "sort_reverse ?L"] set_sort_reverse [of ?L] by blast
  moreover have "recommendations str_lower uid limit db =
                 Inr (slice_to limit (sort_reverse
                   (map (\<lambda>c. c_copy c (spec_score spec_lower (content me) (content c)))
                      (filter (\<lambda>c. \<not> by_id i c \<and>
                                    0 < spec_score spec_lower (content me) (content c))
                         (db_userprofile db)))))"
    if lw: "lowers_ascii str_lower" and asc: "\<forall>u\<in>set (db_userprofile db). ascii_skills (content u)"
  proof -
    from find_one_SomeD [OF assms(2)] asc have "ascii_skills (content me)" by simp
    with lw asc have same: "spec_score str_lower (content me) (content c) =
        spec_score spec_lower (content me) (content c)" if "c \<in> set (db_userprofile db)" for c
      using that by (simp add: spec_score_ascii)
    have "?L = map (\<lambda>c. c_copy c (spec_score spec_lower (content me) (content c)))
                (filter (\<lambda>c. \<not> by_id i c \<and> 0 < spec_score spec_lower (content me) (content c))
                   (db_userprofile db))"
      by (intro map_cong filter_cong refl) (simp_all add: same)
    with eq show ?thesis by simp
  qed
  ultimately show ?thesis using eq by (simp add: spec_score_ascii)
qed

theorem recommendations_score_witness:
  "oid ''000000000000000000000001'' = Inr (Twelve 1)
   \<and> find_one (by_id (Twelve 1)) (db_userprofile db_ABC) =
       Some \<lparr>doc_id = 1, content = model_dump user_A\<rparr>
   \<and> lowers_ascii ascii_lower
   \<and> ascii_skills (model_dump user_A) \<and> ascii_skills (model_dump user_B)
   \<and> ascii_skills (model_dump user_C)
   \<and> spec_score ascii_lower (model_dump user_A) (model_dump user_B) = 8
   \<and> spec_score ascii_lower (model_dump user_A) (model_dump user_C) = 4
   \<and> recommendations ascii_lower ''000000000000000000000001'' 20 db_ABC =
       Inr [\<lparr>out_id = ''000000000000000000000002'', out_content = model_dump user_B, score = 8\<rparr>,
            \<lparr>out_id = ''000000000000000000000003'', out_content = model_dump user_C, score = 4\<rparr>]
   \<and> recommendations ascii_lower ''000000000000000000000001'' 20 db_AB =
       Inr [\<lparr>out_id = ''000000000000000000000002'', out_content = model_dump user_B, score = 8\<rparr>]"
proof -
  note inst = recommendations_score [OF oid_1 me_ABC, of ascii_lower 20]
  from inst have sc: "spec_score ascii_lower (model_dump user_A) c = spec_score spec_lower (model_dump user_A) c"
    if "ascii_skills c" for c
    using that lowers_ascii_ascii_lower ascii_skills_ex(1) by simp
  have b: "spec_score ascii_lower (model_dump user_A) (model_dump user_B) = 8"
    and c: "spec_score ascii_lower (model_dump user_A) (model_dump user_C) = 4"
    by (simp_all add: sc ascii_skills_ex spec_score_ex)
  from inst have "recommendations ascii_lower ''000000000000000000000001'' 20 db_ABC =
          Inr (slice_to 20 (sort_reverse
             (map (\<lambda>c. c_copy c (spec_score ascii_lower (model_dump user_A) (content c)))
                (filter (\<lambda>c. \<not> by_id (Twelve 1) c \<and>
                              0 < spec_score ascii_lower (model_dump user_A) (content c))
                   (db_userprofile db_ABC)))))"
    by simp
  then have "recommendations ascii_lower ''000000000000000000000001'' 20 db_ABC =
       Inr [\<lparr>out_id = ''000000000000000000000002'', out_content = model_dump user_B, score = 8\<rparr>,
            \<lparr>out_id = ''000000000000000000000003'', out_content = model_dump user_C, score = 4\<rparr>]"
    by (simp add: db_ABC_eq empty_store_def by_id_def b c c_copy_def sort_reverse_def slice_to_def
        str_oid_2 str_oid_3)
  with b c show ?thesis
    by (simp add: oid_1 me_ABC lowers_ascii_ascii_lower ascii_skills_ex recommendations_AB_ex
        slice_to_def)
qed

text \<open>
  C4, as the code has it. For a requester that exists the handler returns a list in which
  every score is positive, no entry's identifier resolves to the requester, the scores
  never increase from one entry to the next, and, when the limit is not negative, the
  length is at most the limit.
\<close>

theorem recommendations_list:
  assumes "oid uid = Inr i" and "find_one (by_id i) (db_userprofile db) = Some me"
  shows "\<exists>rs. recommendations str_lower uid limit db = Inr rs
           \<and> (\<forall>r\<in>set rs. 0 < score r)
           \<and> (\<forall>r\<in>set rs. oid (out_id r) \<noteq> oid uid)
           \<and> (0 \<le> limit \<longrightarrow> int (length rs) \<le> limit)
           \<and> sorted_wrt (\<lambda>a b. score b \<le> score a) rs"
proof -
  let ?L = "map (\<lambda>c. c_copy c (spec_score str_lower (content me) (content c)))
                (filter (\<lambda>c. 0 < spec_score str_lower (content me) (content c))
                   (filter (\<lambda>c. \<not> by_id i c) (db_userprofile db)))"
  let ?rs = "slice_to limit (sort_reverse ?L)"
  have eq: "recommendations str_lower uid limit db = Inr ?rs"
    by (rule recommendations_eq [OF assms])
  have sub: "set ?rs \<subseteq> set ?L"
    using set_slice_to [of limit "sort_reverse ?L"] set_sort_reverse [of ?L] by blast
  have pos: "0 < score r" if "r \<in> set ?L" for r
    using that by (auto simp: c_copy_def)
  have other: "oid (out_id r) \<noteq> oid uid" if "r \<in> set ?L" for r
    using that assms(1) by (auto simp: c_copy_def oid_str_oid by_id_def)
  have len: "0 \<le> limit \<longrightarrow> int (length ?rs) \<le> limit"
    by (simp add: length_slice_to)
  have srt: "sorted_wrt (\<lambda>a b. score b \<le> score a) ?rs"
    by (intro sorted_slice_to sorted_sort_reverse)
  from eq sub pos other len srt show ?thesis by blast
qed

theorem recommendations_list_witness:
  "oid ''000000000000000000000001'' = Inr (Twelve 1)
   \<and> find_one (by_id (Twelve 1)) (db_userprofile db_ABC) =
       Some \<lparr>doc_id = 1, content = model_dump user_A\<rparr>
   \<and> recommendations ascii_lower ''000000000000000000000001'' 20 db_ABC =
       Inr [\<lparr>out_id = ''000000000000000000000002'', out_content = model_dump user_B, score = 8\<rparr>,
            \<lparr>out_id = ''000000000000000000000003'', out_content = model_dump user_C, score = 4\<rparr>]
   \<and> recommendations ascii_lower ''000000000000000000000001'' 1 db_ABC =
       Inr [\<lparr>out_id = ''000000000000000000000002'', out_content = model_dump user_B, score = 8\<rparr>]"
  using recommendations_list [OF oid_1 me_ABC, of ascii_lower 20]
    recommendations_list [OF oid_1 me_ABC, of ascii_lower 1]
  by (simp add: oid_1 me_ABC recommendations_ex slice_to_def)

text \<open>
  With limit \<open>-1\<close> and two candidates of positive score the handler returns one entry: a
  list longer than the limit.
\<close>

theorem recommendations_negative_limit:
 "recommendations ascii_lower ''000000000000000000000001'' (- 1) db_ABC =
   Inr [\<lparr>out_id = ''000000000000000000000002'', out_content = model_dump user_B, score = 8\<rparr>]
  \<and> \<not> int (length [\<lparr>out_id = ''000000000000000000000002'', out_content = model_dump user_B, score = 8\<rparr>]) \<le> - 1"
  by (simp add: recommendations_ex slice_to_def)

section \<open>Swipes\<close>

text \<open>
  C7. A swipe with action \<^verbatim>\<open>pass\<close> returns the "recorded" result and its only effect is the
  swipe document appended to the swipe collection: the match collection and every other
  collection are the ones of the store before the call, whatever swipes the store holds
  (also a \<^verbatim>\<open>like\<close> of the target towards the passer).
\<close>

theorem swipe_pass_only_records:
  assumes "action payload = ''pass''"
  shows "swipe payload swipe_id new_match_id db =
           (Inr Recorded,
            db\<lparr>db_swipe := db_swipe db @ [\<lparr>doc_id = swipe_id, content = payload\<rparr>]\<rparr>)
         \<and> db_match (snd (swipe payload swipe_id new_match_id db)) = db_match db
         \<and> db_userprofile (snd (swipe payload swipe_id new_match_id db)) = db_userprofile db
         \<and> db_session (snd (swipe payload swipe_id new_match_id db)) = db_session db
         \<and> db_rewardtransaction (snd (swipe payload swipe_id new_match_id db)) =
             db_rewardtransaction db"
  using assms by (simp add: swipe_def create_document_def)

text \<open>
  The witness: bob has liked alice; alice passes on bob. The call is recorded and the
  match collection stays empty.
\<close>

theorem swipe_pass_only_records_witness:
  "action \<lparr>user_id = ''alice'', target_id = ''bob'', action = ''pass''\<rparr> = ''pass'' \<and>
   fst (swipe \<lparr>user_id = ''alice'', target_id = ''bob'', action = ''pass''\<rparr> 2 3
          (run empty_store [Swipe \<lparr>user_id = ''bob'', target_id = ''alice'', action = ''like''\<rparr> 1 3]))
     = Inr Recorded \<and>
   db_match (snd (swipe \<lparr>user_id = ''alice'', target_id = ''bob'', action = ''pass''\<rparr> 2 3
          (run empty_store [Swipe \<lparr>user_id = ''bob'', target_id = ''alice'', action = ''like''\<rparr> 1 3])))
     = []"
proof -
  have db: "db_match (run empty_store
      [Swipe \<lparr>user_id = ''bob'', target_id = ''alice'', action = ''like''\<rparr> 1 3]) = []"
    by (simp add: swipe_def create_document_def empty_store_def find_one_def mutual_filter_def)
  show ?thesis
    using swipe_pass_only_records
      [of "\<lparr>user_id = ''alice'', target_id = ''bob'', action = ''pass''\<rparr>" 2 3
          "run empty_store [Swipe \<lparr>user_id = ''bob'', target_id = ''alice'', action = ''like''\<rparr> 1 3]"]
      db
    by simp
qed

text \<open>
  C5, as the code has it. The action is checked before anything is written: with an
  action that is neither \<^verbatim>\<open>like\<close> nor \<^verbatim>\<open>pass\<close> the call fails with the 400 exception and
  the store is left exactly as it was, so no swipe is persisted. With one of the two
  actions the call returns a result and the swipe document, carrying the payload's
  \<^verbatim>\<open>user_id\<close>, \<^verbatim>\<open>target_id\<close> and \<^verbatim>\<open>action\<close>, is appended to the swipe collection, whatever
  the outcome.
\<close>

theorem swipe_action_checked_then_persisted:
  "(action payload \<noteq> ''like'' \<and> action payload \<noteq> ''pass'' \<longrightarrow>
      swipe payload swipe_id new_match_id db =
        (Inl (HTTPException 400 ''Invalid action''), db)) \<and>
   (action payload = ''like'' \<or> action payload = ''pass'' \<longrightarrow>
      (\<exists>r. fst (swipe payload swipe_id new_match_id db) = Inr r) \<and>
      db_swipe (snd (swipe payload swipe_id new_match_id db)) =
        db_swipe db @ [\<lparr>doc_id = swipe_id, content = payload\<rparr>])"
  by (auto simp: swipe_def create_document_def Let_def split: option.splits)

theorem swipe_action_checked_then_persisted_witness:
  "swipe \<lparr>user_id = ''alice'', target_id = ''bob'', action = ''superlike''\<rparr> 1 2 empty_store =
     (Inl (HTTPException 400 ''Invalid action''), empty_store) \<and>
   db_swipe (snd (swipe \<lparr>user_id = ''alice'', target_id = ''bob'', action = ''like''\<rparr> 1 2 empty_store)) =
     [\<lparr>doc_id = 1, content = \<lparr>user_id = ''alice'', target_id = ''bob'', action = ''like''\<rparr>\<rparr>]"
  using swipe_action_checked_then_persisted
      [of "\<lparr>user_id = ''alice'', target_id = ''bob'', action = ''superlike''\<rparr>" 1 2 empty_store]
    swipe_action_checked_then_persisted
      [of "\<lparr>user_id = ''alice'', target_id = ''bob'', action = ''like''\<rparr>" 1 2 empty_store]
  by (simp add: empty_store_def)

text \<open>
  The claim as the spec words it (the swipe is persisted first, whatever the action)
  fails for an unrecognised action: after the call the swipe collection is still empty.
\<close>

theorem swipe_invalid_action_not_persisted:
  "db_swipe (snd (swipe \<lparr>user_id = ''alice'', target_id = ''bob'', action = ''superlike''\<rparr> 1 2
                    empty_store)) = []"
  by (simp add: swipe_def empty_store_def)

subsection \<open>The match collection\<close>

text \<open>
  Only \<^verbatim>\<open>swipe\<close> writes to the match collection, and only after it has found no match
  for the pair in either order; so every store reached from the empty one holds at most
  one match for each unordered pair, and all its matches are active.
\<close>

lemma existing_filter_pair:
  "existing_filter payload m \<longleftrightarrow> pair_of m = {user_id payload, target_id payload}"
  by (auto simp: existing_filter_def pair_of_def doubleton_eq_iff)

lemma swipe_like:
  assumes "action payload = ''like''"
  shows "swipe payload swipe_id new_match_id db =
     (let sw = db_swipe db @ [\<lparr>doc_id = swipe_id, content = payload\<rparr>] in
      case find_one (mutual_filter payload) sw of
        None \<Rightarrow> (Inr Recorded, db\<lparr>db_swipe := sw\<rparr>)
      | Some mutual \<Rightarrow>
          (case find_one (existing_filter payload) (db_match db) of
             None \<Rightarrow> (Inr (Matched (str_oid new_match_id)),
                       db\<lparr>db_swipe := sw, db_match := db_match db @ [new_match payload new_match_id]\<rparr>)
           | Some existing \<Rightarrow> (Inr (Matched (str_oid (doc_id existing))), db\<lparr>db_swipe := sw\<rparr>)))"
  using assms
  by (simp add: swipe_def create_document_def Let_def new_match_def split: option.splits)

lemma swipe_db_match:
  "db_match (snd (swipe payload swipe_id new_match_id db)) = db_match db \<or>
   (find_one (existing_filter payload) (db_match db) = None \<and>
    db_match (snd (swipe payload swipe_id new_match_id db)) =
      db_match db @ [new_match payload new_match_id])"
  by (simp add: swipe_def create_document_def Let_def new_match_def split: option.splits)

lemma swipe_match_inv:
  assumes "match_inv db"
  shows "match_inv (snd (swipe payload swipe_id new_match_id db))"
proof -
  consider "db_match (snd (swipe payload swipe_id new_match_id db)) = db_match db"
    | "find_one (existing_filter payload) (db_match db) = None"
      "db_match (snd (swipe payload swipe_id new_match_id db)) =
         db_match db @ [new_match payload new_match_id]"
    using swipe_db_match [of payload swipe_id new_match_id db] by auto
  then show ?thesis
  proof cases
    case 1
    with assms show ?thesis by (simp add: match_inv_def)
  next
    case 2
    from 2(1) have "\<forall>m\<in>set (db_match db). pair_of m \<noteq> {user_id payload, target_id payload}"
      by (simp add: find_one_None_iff existing_filter_pair)
    moreover have "pair_of (new_match payload new_match_id) = {user_id payload, target_id payload}"
      by (simp add: pair_of_def new_match_def)
    ultimately have "pair_of (new_match payload new_match_id) \<notin> pair_of ` set (db_match db)"
      by auto
    with assms 2(2) show ?thesis
      by (auto simp: match_inv_def new_match_def)
  qed
qed

lemma create_or_get_user_db_match:
  "db_match (snd (create_or_get_user payload new_id db)) = db_match db"
  by (simp add: create_or_get_user_def create_document_def Let_def split: option.splits)

lemma create_session_db_match:
  "db_match (snd (create_session payload new_id db)) = db_match db"
  by (simp add: create_session_def create_document_def Let_def split: option.splits sum.splits)

lemma reward_loop_db_match:
  "db_match (snd (reward_loop session_id reward us db)) = db_match db"
  by (induction session_id reward us db rule: reward_loop.induct)
     (auto simp: Let_def split: sum.splits)

lemma complete_session_snd:
  "snd (complete_session session_id tx_id1 tx_id2 db) =
     (case oid session_id of
        Inl e \<Rightarrow> db
      | Inr i \<Rightarrow>
          (case find_one (by_id i) (db_session db) of
             None \<Rightarrow> db
           | Some s \<Rightarrow>
               snd (reward_loop session_id 10
                      [(host_id (content s), tx_id1), (guest_id (content s), tx_id2)]
                      (db\<lparr>db_session :=
                            update_one (by_id (Twelve (doc_id s))) (set_status ''completed'')
                              (db_session db)\<rparr>))))"
  by (auto simp: complete_session_def Let_def split: sum.splits option.splits prod.splits
           simp del: reward_loop.simps)

lemma complete_session_db_match:
  "db_match (snd (complete_session session_id tx_id1 tx_id2 db)) = db_match db"
  by (simp add: complete_session_snd reward_loop_db_match split: sum.splits option.splits
           del: reward_loop.simps)

lemma handle_match_inv:
  assumes "match_inv db"
  shows "match_inv (handle r db)"
proof (cases r)
  case (Swipe payload swipe_id new_match_id)
  with assms show ?thesis by (simp add: swipe_match_inv)
next
  case (CreateOrGetUser payload new_id)
  with assms show ?thesis by (simp add: match_inv_def create_or_get_user_db_match)
next
  case (CreateSession payload new_id)
  with assms show ?thesis by (simp add: match_inv_def create_session_db_match)
next
  case (CompleteSession session_id tx_id1 tx_id2)
  with assms show ?thesis by (simp add: match_inv_def complete_session_db_match)
qed

lemma run_match_inv: "match_inv db \<Longrightarrow> match_inv (run db rs)"
  by (induction rs arbitrary: db) (simp_all add: handle_match_inv)

lemma match_inv_empty: "match_inv empty_store"
  by (simp add: match_inv_def empty_store_def)

lemma reachable_match_inv: "match_inv (run empty_store rs)"
  by (simp add: run_match_inv match_inv_empty)

lemma mutual_found:
  assumes "like_recorded (target_id payload) (user_id payload) db"
  shows "\<exists>d. find_one (mutual_filter payload)
               (db_swipe db @ [\<lparr>doc_id = swipe_id, content = payload\<rparr>]) = Some d"
proof -
  from assms have "find_one (mutual_filter payload) (db_swipe db) \<noteq> None"
    by (auto simp: like_recorded_def find_one_None_iff mutual_filter_def)
  then show ?thesis by (auto simp: find_one_append)
qed

lemma second_like:
  assumes inv: "match_inv db"
    and like: "like_recorded a b db"
    and sw: "swipe \<lparr>user_id = b, target_id = a, action = ''like''\<rparr> swipe_id new_match_id db = (r, db')"
  shows "\<exists>m. r = Inr (Matched (str_oid (doc_id m)))
           \<and> filter (\<lambda>x. pair_of x = {a, b}) (db_match db') = [m]
           \<and> match_status (content m) = ''active''
           \<and> db_swipe db' = db_swipe db @
                [\<lparr>doc_id = swipe_id, content = \<lparr>user_id = b, target_id = a, action = ''like''\<rparr>\<rparr>]"
proof -
  let ?p = "\<lparr>user_id = b, target_id = a, action = ''like''\<rparr>"
  let ?sw = "db_swipe db @ [\<lparr>doc_id = swipe_id, content = ?p\<rparr>]"
  obtain d where d: "find_one (mutual_filter ?p) ?sw = Some d"
    using mutual_found [of ?p db swipe_id] like by auto
  have pair: "existing_filter ?p = (\<lambda>x. pair_of x = {a, b})"
    by (auto simp: existing_filter_pair fun_eq_iff)
  show ?thesis
  proof (cases "find_one (existing_filter ?p) (db_match db)")
    case None
    then have res: "r = Inr (Matched (str_oid new_match_id))"
        "db' = db\<lparr>db_swipe := ?sw, db_match := db_match db @ [new_match ?p new_match_id]\<rparr>"
      using sw d by (simp_all add: swipe_like Let_def)
    from None have "filter (\<lambda>x. pair_of x = {a, b}) (db_match db) = []"
      by (simp add: find_one_None_iff pair filter_empty_conv)
    moreover have "pair_of (new_match ?p new_match_id) = {a, b}"
      by (auto simp: pair_of_def new_match_def)
    ultimately have "filter (\<lambda>x. pair_of x = {a, b}) (db_match db') = [new_match ?p new_match_id]"
      using res(2) by simp
    with res show ?thesis
      by (intro exI [of _ "new_match ?p new_match_id"]) (simp add: new_match_def)
  next
    case (Some e)
    then have res: "r = Inr (Matched (str_oid (doc_id e)))" "db' = db\<lparr>db_swipe := ?sw\<rparr>"
      using sw d by (simp_all add: swipe_like Let_def)
    from Some have e: "e \<in> set (db_match db)" "pair_of e = {a, b}"
      using find_one_SomeD [of "existing_filter ?p" "db_match db" e] by (simp_all add: pair)
    from inv e(1) have "filter (\<lambda>y. pair_of y = pair_of e) (db_match db) = [e]"
      by (intro distinct_map_filter_single) (simp_all add: match_inv_def)
    with e(2) res(2) have "filter (\<lambda>x. pair_of x = {a, b}) (db_match db') = [e]" by simp
    moreover from inv e(1) have "match_status (content e) = ''active''"
      by (simp add: match_inv_def)
    ultimately show ?thesis using res by (intro exI [of _ e]) simp
  qed
qed

lemma further_like:
  assumes single: "filter (\<lambda>x. pair_of x = {a, b}) (db_match db) = [m]"
    and likes: "like_recorded a b db" "like_recorded b a db"
    and p: "action payload = ''like''"
      "(user_id payload = a \<and> target_id payload = b) \<or> (user_id payload = b \<and> target_id payload = a)"
  shows "swipe payload swipe_id new_match_id db =
           (Inr (Matched (str_oid (doc_id m))),
            db\<lparr>db_swipe := db_swipe db @ [\<lparr>doc_id = swipe_id, content = payload\<rparr>]\<rparr>)"
proof -
  let ?sw = "db_swipe db @ [\<lparr>doc_id = swipe_id, content = payload\<rparr>]"
  from likes p(2) have "like_recorded (target_id payload) (user_id payload) db" by auto
  then obtain d where d: "find_one (mutual_filter payload) ?sw = Some d"
    using mutual_found [of payload db swipe_id] by auto
  from p(2) have "{user_id payload, target_id payload} = {a, b}" by auto
  then have "existing_filter payload = (\<lambda>x. pair_of x = {a, b})"
    by (simp add: existing_filter_pair fun_eq_iff)
  with single have "find_one (existing_filter payload) (db_match db) = Some m"
    by (simp add: find_one_filter)
  with d p(1) show ?thesis by (simp add: swipe_like Let_def)
qed

lemma like_recorded_mono:
  "like_recorded a b db \<Longrightarrow> db_swipe db' = db_swipe db @ xs \<Longrightarrow> like_recorded a b db'"
  by (auto simp: like_recorded_def)

lemma further_likes:
  assumes "filter (\<lambda>x. pair_of x = {a, b}) (db_match db) = [m]"
    and "like_recorded a b db" "like_recorded b a db"
    and "\<forall>(payload, ids)\<in>set ps. action payload = ''like'' \<and>
          ((user_id payload = a \<and> target_id payload = b) \<or>
           (user_id payload = b \<and> target_id payload = a))"
  shows "fst (swipes ps db) = map (\<lambda>_. Inr (Matched (str_oid (doc_id m)))) ps
       \<and> db_match (snd (swipes ps db)) = db_match db"
  using assms
proof (induction ps arbitrary: db)
  case Nil
  then show ?case by simp
next
  case (Cons x ps)
  obtain payload swipe_id new_match_id where x: "x = (payload, swipe_id, new_match_id)"
    by (cases x) auto
  let ?db1 = "db\<lparr>db_swipe := db_swipe db @ [\<lparr>doc_id = swipe_id, content = payload\<rparr>]\<rparr>"
  from Cons.prems(4) x have p: "action payload = ''like''"
      "(user_id payload = a \<and> target_id payload = b) \<or> (user_id payload = b \<and> target_id payload = a)"
    by auto
  have step: "swipe payload swipe_id new_match_id db = (Inr (Matched (str_oid (doc_id m))), ?db1)"
    by (rule further_like [OF Cons.prems(1-3) p])
  have "fst (swipes ps ?db1) = map (\<lambda>_. Inr (Matched (str_oid (doc_id m)))) ps
       \<and> db_match (snd (swipes ps ?db1)) = db_match ?db1"
  proof (rule Cons.IH)
    show "filter (\<lambda>x. pair_of x = {a, b}) (db_match ?db1) = [m]"
      using Cons.prems(1) by simp
    show "like_recorded a b ?db1" "like_recorded b a ?db1"
      using Cons.prems(2,3) by (auto intro: like_recorded_mono)
    show "\<forall>(payload, ids)\<in>set ps. action payload = ''like'' \<and>
          ((user_id payload = a \<and> target_id payload = b) \<or>
           (user_id payload = b \<and> target_id payload = a))"
      using Cons.prems(4) by simp
  qed
  with step x show ?case by (simp add: split_beta)
qed

text \<open>
  C2. In a store reached from the empty store by serving requests, let a \<^verbatim>\<open>like\<close> of \<open>a\<close>
  towards \<open>b\<close> be on record, and let \<open>b\<close> now swipe \<^verbatim>\<open>like\<close> on \<open>a\<close>. The call returns
  "matched" with the identifier of a match \<open>m\<close>; after it \<open>m\<close> is the one and only match
  of the unordered pair, and it is active. Every further series of \<^verbatim>\<open>like\<close> swipes between
  the two, in either direction, returns "matched" with the identifier of \<open>m\<close> each time
  and leaves the match collection as it is. (The two users need not be distinct.)
\<close>

theorem mutual_like_single_match:
  assumes "like_recorded a b (run empty_store reqs)"
    and "swipe \<lparr>user_id = b, target_id = a, action = ''like''\<rparr> swipe_id new_match_id
           (run empty_store reqs) = (r, db')"
  shows "\<exists>m. r = Inr (Matched (str_oid (doc_id m)))
           \<and> filter (\<lambda>x. pair_of x = {a, b}) (db_match db') = [m]
           \<and> match_status (content m) = ''active''
           \<and> (\<forall>ps. (\<forall>(payload, ids)\<in>set ps. action payload = ''like'' \<and>
                       ((user_id payload = a \<and> target_id payload = b) \<or>
                        (user_id payload = b \<and> target_id payload = a))) \<longrightarrow>
                    fst (swipes ps db') = map (\<lambda>_. Inr (Matched (str_oid (doc_id m)))) ps \<and>
                    db_match (snd (swipes ps db')) = db_match db')"
proof -
  let ?db = "run empty_store reqs"
  obtain m where m: "r = Inr (Matched (str_oid (doc_id m)))"
      "filter (\<lambda>x. pair_of x = {a, b}) (db_match db') = [m]"
      "match_status (content m) = ''active''"
      "db_swipe db' = db_swipe ?db @
         [\<lparr>doc_id = swipe_id, content = \<lparr>user_id = b, target_id = a, action = ''like''\<rparr>\<rparr>]"
    using second_like [OF reachable_match_inv assms] by blast
  have ab: "like_recorded a b db'"
    using assms(1) m(4) by (rule like_recorded_mono)
  have ba: "like_recorded b a db'"
    using m(4) by (simp add: like_recorded_def)
  from further_likes [OF m(2) ab ba] m(1-3) show ?thesis by blast
qed

theorem mutual_like_single_match_witness:
  "like_recorded ''alice'' ''bob'' (run empty_store [Swipe (like_payload ''alice'' ''bob'') 1 9])
   \<and> fst (swipe \<lparr>user_id = ''bob'', target_id = ''alice'', action = ''like''\<rparr> 2 3 db_liked) =
       Inr (Matched ''000000000000000000000003'')
   \<and> db_match (snd (swipe \<lparr>user_id = ''bob'', target_id = ''alice'', action = ''like''\<rparr> 2 3 db_liked)) =
       [\<lparr>doc_id = 3, content = \<lparr>user_a = ''bob'', user_b = ''alice'', match_status = ''active''\<rparr>\<rparr>]
   \<and> fst (swipes [(like_payload ''alice'' ''bob'', 4, 5), (like_payload ''bob'' ''alice'', 6, 7)]
             (snd (swipe \<lparr>user_id = ''bob'', target_id = ''alice'', action = ''like''\<rparr> 2 3 db_liked))) =
       [Inr (Matched ''000000000000000000000003''), Inr (Matched ''000000000000000000000003'')]
   \<and> db_match (snd (swipes [(like_payload ''alice'' ''bob'', 4, 5), (like_payload ''bob'' ''alice'', 6, 7)]
             (snd (swipe \<lparr>user_id = ''bob'', target_id = ''alice'', action = ''like''\<rparr> 2 3 db_liked)))) =
       [\<lparr>doc_id = 3, content = \<lparr>user_a = ''bob'', user_b = ''alice'', match_status = ''active''\<rparr>\<rparr>]"
proof -
  let ?p = "\<lparr>user_id = ''bob'', target_id = ''alice'', action = ''like''\<rparr>"
  let ?db = "run empty_store [Swipe (like_payload ''alice'' ''bob'') 1 9]"
  let ?ps = "[(like_payload ''alice'' ''bob'', 4, 5), (like_payload ''bob'' ''alice'', 6::objectid, 7::objectid)]"
  have db: "?db = db_liked" by (simp add: db_liked_def)
  have sw: "swipe ?p 2 3 db_liked =
      (Inr (Matched ''000000000000000000000003''),
       db_liked\<lparr>db_swipe := db_swipe db_liked @ [\<lparr>doc_id = 2, content = ?p\<rparr>],
                db_match := [\<lparr>doc_id = 3, content = \<lparr>user_a = ''bob'', user_b = ''alice'', match_status = ''active''\<rparr>\<rparr>]\<rparr>)"
    by (simp add: db_liked_eq swipe_def empty_store_def find_one_def create_document_def
        mutual_filter_def like_payload_def str_oid_3)
  have sw': "swipe ?p 2 3 ?db = (fst (swipe ?p 2 3 db_liked), snd (swipe ?p 2 3 db_liked))"
    unfolding db_liked_def by simp
  from mutual_like_single_match [OF liked sw']
  obtain m :: "Match document"
    where m: "fst (swipe ?p 2 3 db_liked) = Inr (Matched (str_oid (doc_id m)))"
      "\<forall>ps. (\<forall>(payload, ids)\<in>set ps. action payload = ''like'' \<and>
                       ((user_id payload = ''alice'' \<and> target_id payload = ''bob'') \<or>
                        (user_id payload = ''bob'' \<and> target_id payload = ''alice''))) \<longrightarrow>
                    fst (swipes ps (snd (swipe ?p 2 3 db_liked))) = map (\<lambda>_. Inr (Matched (str_oid (doc_id m)))) ps \<and>
                    db_match (snd (swipes ps (snd (swipe ?p 2 3 db_liked)))) = db_match (snd (swipe ?p 2 3 db_liked))"
    by blast
  from m(1) sw have id: "str_oid (doc_id m) = ''000000000000000000000003''" by simp
  have "\<forall>(payload, ids)\<in>set ?ps. action payload = ''like'' \<and>
                       ((user_id payload = ''alice'' \<and> target_id payload = ''bob'') \<or>
                        (user_id payload = ''bob'' \<and> target_id payload = ''alice''))"
    by (simp add: like_payload_def)
  with m(2) have "fst (swipes ?ps (snd (swipe ?p 2 3 db_liked))) = map (\<lambda>_. Inr (Matched (str_oid (doc_id m)))) ?ps \<and>
                    db_match (snd (swipes ?ps (snd (swipe ?p 2 3 db_liked)))) = db_match (snd (swipe ?p 2 3 db_liked))"
    by blast
  with id sw liked show ?thesis by simp
qed

text \<open>
  C10. When a user swipes \<^verbatim>\<open>like\<close> on their own identifier, the swipe document written at
  the start of the call answers the query for the reverse \<^verbatim>\<open>like\<close> itself; the single call
  returns "matched" with the identifier of a match whose two users are both that user,
  and the match is in the collection after the call. Where the collection held no such
  match before, the call has created it: the collection grows by exactly this document.
\<close>

theorem self_like_matches:
  assumes "action payload = ''like''" and "target_id payload = user_id payload"
  shows "mutual_filter payload \<lparr>doc_id = swipe_id, content = payload\<rparr>
       \<and> (\<exists>m. fst (swipe payload swipe_id new_match_id db) = Inr (Matched (str_oid (doc_id m)))
              \<and> m \<in> set (db_match (snd (swipe payload swipe_id new_match_id db)))
              \<and> user_a (content m) = user_id payload \<and> user_b (content m) = user_id payload)
       \<and> (find_one (existing_filter payload) (db_match db) = None \<longrightarrow>
            swipe payload swipe_id new_match_id db =
              (Inr (Matched (str_oid new_match_id)),
               db\<lparr>db_swipe := db_swipe db @ [\<lparr>doc_id = swipe_id, content = payload\<rparr>],
                  db_match := db_match db @
                    [\<lparr>doc_id = new_match_id,
                      content = \<lparr>user_a = user_id payload, user_b = user_id payload,
                                 match_status = ''active''\<rparr>\<rparr>]\<rparr>))"
proof -
  let ?sw = "db_swipe db @ [\<lparr>doc_id = swipe_id, content = payload\<rparr>]"
  have self: "mutual_filter payload \<lparr>doc_id = swipe_id, content = payload\<rparr>"
    using assms by (simp add: mutual_filter_def)
  then have "find_one (mutual_filter payload) ?sw \<noteq> None"
    by (auto simp: find_one_None_iff)
  then obtain d where d: "find_one (mutual_filter payload) ?sw = Some d" by auto
  show ?thesis
  proof (cases "find_one (existing_filter payload) (db_match db)")
    case None
    with d assms have "swipe payload swipe_id new_match_id db =
        (Inr (Matched (str_oid new_match_id)),
         db\<lparr>db_swipe := ?sw, db_match := db_match db @ [new_match payload new_match_id]\<rparr>)"
      by (simp add: swipe_like Let_def)
    with assms self show ?thesis
      by (auto simp: new_match_def intro!: exI [of _ "new_match payload new_match_id"])
  next
    case (Some e)
    then have "e \<in> set (db_match db)" "existing_filter payload e"
      using find_one_SomeD [of "existing_filter payload" "db_match db" e] by simp_all
    with Some d assms self show ?thesis
      by (auto simp: swipe_like Let_def existing_filter_def)
  qed
qed

theorem self_like_matches_witness:
  "action (like_payload ''alice'' ''alice'') = ''like''
   \<and> target_id (like_payload ''alice'' ''alice'') = user_id (like_payload ''alice'' ''alice'')
   \<and> swipe (like_payload ''alice'' ''alice'') 1 2 empty_store =
       (Inr (Matched ''000000000000000000000002''),
        empty_store\<lparr>db_swipe := [\<lparr>doc_id = 1, content = like_payload ''alice'' ''alice''\<rparr>],
          db_match := [\<lparr>doc_id = 2, content = \<lparr>user_a = ''alice'', user_b = ''alice'',
                         match_status = ''active''\<rparr>\<rparr>]\<rparr>)"
proof -
  have a: "action (like_payload ''alice'' ''alice'') = ''like''"
    and t: "target_id (like_payload ''alice'' ''alice'') = user_id (like_payload ''alice'' ''alice'')"
    by (simp_all add: like_payload_def)
  have n: "find_one (existing_filter (like_payload ''alice'' ''alice'')) (db_match empty_store) = None"
    by (simp add: empty_store_def find_one_def)
  from self_like_matches [OF a t, of 1 2 empty_store] n a t
  show ?thesis by (simp add: empty_store_def str_oid_2 like_payload_def)
qed

section \<open>Users\<close>

lemma create_or_get_user_existing:
  assumes "find_one (\<lambda>d. email (content d) = email payload) (db_userprofile db) = Some e"
  shows "create_or_get_user payload new_id db = (Inr (to_out e), db)"
  using assms by (simp add: create_or_get_user_def)

lemma create_or_get_user_new:
  assumes "find_one (\<lambda>d. email (content d) = email payload) (db_userprofile db) = None"
  shows "\<exists>u. create_or_get_user payload new_id db =
           (Inr (to_out u),
            db\<lparr>db_userprofile := db_userprofile db @
                 [\<lparr>doc_id = new_id, content = model_dump payload\<rparr>]\<rparr>)
         \<and> doc_id u = new_id
         \<and> (new_id \<notin> doc_id ` set (db_userprofile db) \<longrightarrow>
              u = \<lparr>doc_id = new_id, content = model_dump payload\<rparr>)"
proof -
  let ?new = "\<lparr>doc_id = new_id, content = model_dump payload\<rparr>"
  let ?coll = "db_userprofile db @ [?new]"
  have "find_one (by_id (Twelve new_id)) ?coll \<noteq> None"
    by (auto simp: find_one_None_iff by_id_def)
  then obtain u where u: "find_one (by_id (Twelve new_id)) ?coll = Some u" by auto
  then have id: "doc_id u = new_id"
    using find_one_SomeD [of "by_id (Twelve new_id)" ?coll u] by (simp add: by_id_def)
  have fresh: "u = ?new" if "new_id \<notin> doc_id ` set (db_userprofile db)"
  proof -
    from that have "find_one (by_id (Twelve new_id)) (db_userprofile db) = None"
      by (auto simp: find_one_None_iff by_id_def)
    with u have "find_one (by_id (Twelve new_id)) [?new] = Some u" by (simp add: find_one_append)
    then show ?thesis by (simp add: find_one_def by_id_def)
  qed
  have "create_or_get_user payload new_id db = (Inr (to_out u), db\<lparr>db_userprofile := ?coll\<rparr>)"
    using assms u
    by (simp add: create_or_get_user_def create_document_def ObjectId_str_oid)
  with id fresh show ?thesis by blast
qed

text \<open>
  C6. Two calls of create-or-get with payloads of the same email: the first returns a
  record, the second returns a record with the same identifier and leaves the whole store
  as the first call left it, so nothing of the second payload is stored. When the
  identifier generated in the first call is new to the collection, the second call
  returns the very record of the first.
\<close>

theorem create_or_get_user_idempotent:
  assumes "email p2 = email p1"
  shows "\<exists>u1 u2. fst (create_or_get_user p1 n1 db) = Inr u1
           \<and> create_or_get_user p2 n2 (snd (create_or_get_user p1 n1 db)) =
               (Inr u2, snd (create_or_get_user p1 n1 db))
           \<and> out_id u2 = out_id u1
           \<and> (n1 \<notin> doc_id ` set (db_userprofile db) \<longrightarrow> u2 = u1)"
proof (cases "find_one (\<lambda>d. email (content d) = email p1) (db_userprofile db)")
  case (Some e)
  then have 1: "create_or_get_user p1 n1 db = (Inr (to_out e), db)"
    by (rule create_or_get_user_existing)
  from Some assms have "create_or_get_user p2 n2 db = (Inr (to_out e), db)"
    by (intro create_or_get_user_existing) simp
  with 1 show ?thesis by simp
next
  case None
  let ?new = "\<lparr>doc_id = n1, content = model_dump p1\<rparr>"
  let ?db1 = "db\<lparr>db_userprofile := db_userprofile db @ [?new]\<rparr>"
  from create_or_get_user_new [OF None, of n1]
  obtain u where u: "create_or_get_user p1 n1 db = (Inr (to_out u), ?db1)"
      "doc_id u = n1" "n1 \<notin> doc_id ` set (db_userprofile db) \<longrightarrow> u = ?new"
    by blast
  from None assms have "find_one (\<lambda>d. email (content d) = email p2) (db_userprofile ?db1) = Some ?new"
    by (simp add: find_one_append) (simp add: find_one_def model_dump_def)
  then have "create_or_get_user p2 n2 ?db1 = (Inr (to_out ?new), ?db1)"
    by (rule create_or_get_user_existing)
  with u show ?thesis by (auto simp: to_out_def)
qed

theorem create_or_get_user_idempotent_witness:
  "email (user_A\<lparr>name := ''Changed'', teach_skills := [''Chess'']\<rparr>) = email user_A
   \<and> fst (create_or_get_user user_A 1 empty_store) =
       Inr \<lparr>out_id = ''000000000000000000000001'', out_content = model_dump user_A\<rparr>
   \<and> create_or_get_user (user_A\<lparr>name := ''Changed'', teach_skills := [''Chess'']\<rparr>) 2
        (snd (create_or_get_user user_A 1 empty_store)) =
       (Inr \<lparr>out_id = ''000000000000000000000001'', out_content = model_dump user_A\<rparr>,
        snd (create_or_get_user user_A 1 empty_store))"
proof -
  let ?p2 = "user_A\<lparr>name := ''Changed'', teach_skills := [''Chess'']\<rparr>"
  have e: "email ?p2 = email user_A" by simp
  have 1: "fst (create_or_get_user user_A 1 empty_store) =
       Inr \<lparr>out_id = ''000000000000000000000001'', out_content = model_dump user_A\<rparr>"
    by (simp add: create_or_get_user_def empty_store_def find_one_def create_document_def
        ObjectId_def hex_value_def is_space_def of_bytes_def int_from_bytes_def Let_def by_id_def
        to_out_def str_oid_1)
  from create_or_get_user_idempotent [OF e, of 1 empty_store 2] 1 e
  show ?thesis by (auto simp: empty_store_def)
qed

section \<open>Sessions\<close>

text \<open>
  C8. For a well-formed match id, in a store reached from the empty store: when the id
  resolves to no match the call fails with the 404 exception and the store is unchanged;
  when it resolves to a match, that match is active, the call returns the new session's
  identifier, and the store gains one session whose host and guest are the match's
  \<^verbatim>\<open>user_a\<close> and \<^verbatim>\<open>user_b\<close> as they are at that moment, whose topic, scheduled time and mode
  are the payload's, and whose status is \<^verbatim>\<open>scheduled\<close>.
\<close>

theorem create_session_bound_to_match:
  assumes "oid (match_id payload) = Inr i"
  shows "(find_one (by_id i) (db_match (run empty_store reqs)) = None \<longrightarrow>
            create_session payload new_id (run empty_store reqs) =
              (Inl (HTTPException 404 ''Match not found''), run empty_store reqs))
       \<and> (\<forall>m. find_one (by_id i) (db_match (run empty_store reqs)) = Some m \<longrightarrow>
            match_status (content m) = ''active'' \<and>
            create_session payload new_id (run empty_store reqs) =
              (Inr (str_oid new_id),
               (run empty_store reqs)\<lparr>db_session := db_session (run empty_store reqs) @
                 [\<lparr>doc_id = new_id,
                   content = \<lparr>match_id = match_id payload, topic = topic payload,
                              scheduled_time = scheduled_time payload, mode = mode payload,
                              host_id = user_a (content m), guest_id = user_b (content m),
                              session_status = ''scheduled''\<rparr>\<rparr>]\<rparr>))"
proof -
  let ?db = "run empty_store reqs"
  have "match_status (content m) = ''active''" if "find_one (by_id i) (db_match ?db) = Some m" for m
    using find_one_SomeD [OF that] reachable_match_inv [of reqs] by (simp add: match_inv_def)
  then show ?thesis
    using assms by (auto simp: create_session_def create_document_def)
qed

theorem create_session_bound_to_match_witness:
  "oid (match_id (session_payload ''000000000000000000000003'')) = Inr (Twelve 3)
   \<and> oid (match_id (session_payload ''000000000000000000000007'')) = Inr (Twelve 7)
   \<and> create_session (session_payload ''000000000000000000000007'') 4 db_pair =
       (Inl (HTTPException 404 ''Match not found''), db_pair)
   \<and> fst (create_session (session_payload ''000000000000000000000003'') 4 db_pair) =
       Inr ''000000000000000000000004''
   \<and> db_session (snd (create_session (session_payload ''000000000000000000000003'') 4 db_pair)) =
       [\<lparr>doc_id = 4, content = \<lparr>match_id = ''000000000000000000000003'',
                      topic = Some ''Python'', scheduled_time = None, mode = ''chat'',
                      host_id = ''bob'', guest_id = ''alice'', session_status = ''scheduled''\<rparr>\<rparr>]"
proof -
  let ?reqs = "[Swipe (like_payload ''alice'' ''bob'') 1 9, Swipe (like_payload ''bob'' ''alice'') 2 3]"
  have o3: "oid (match_id (session_payload ''000000000000000000000003'')) = Inr (Twelve 3)"
    and o7: "oid (match_id (session_payload ''000000000000000000000007'')) = Inr (Twelve 7)"
    by (simp_all add: session_payload_def oid_3 oid_7)
  have f3: "find_one (by_id (Twelve 3)) (db_match db_pair) =
      Some \<lparr>doc_id = 3, content = \<lparr>user_a = ''bob'', user_b = ''alice'', match_status = ''active''\<rparr>\<rparr>"
    and f7: "find_one (by_id (Twelve 7)) (db_match db_pair) = None"
    by (simp_all add: db_pair_eq find_one_def by_id_def)
  from create_session_bound_to_match [OF o3, of ?reqs 4]
       create_session_bound_to_match [OF o7, of ?reqs 4] f3 f7 o3 o7
  show ?thesis
    unfolding db_pair_def [symmetric]
    by (simp add: session_payload_def str_oid_4 db_pair_eq)
qed

lemma balance_inc: "balance_of (content (inc_skillcoins n d)) = balance_of (content d) + n"
  by (simp add: inc_skillcoins_def balance_of_def)

lemma complete_session_ok:
  assumes "oid session_id = Inr i" and "find_one (by_id i) (db_session db) = Some s"
    and "oid (host_id (content s)) = Inr h" and "oid (guest_id (content s)) = Inr g"
  shows "complete_session session_id t1 t2 db =
           (Inr \<lparr>status = ''completed'', skillcoins_awarded = 10\<rparr>,
            db\<lparr>db_session := update_one (by_id i) (set_status ''completed'') (db_session db),
               db_rewardtransaction := db_rewardtransaction db @
                 [reward_entry session_id (host_id (content s)) t1,
                  reward_entry session_id (guest_id (content s)) t2],
               db_userprofile := update_one (by_id g) (inc_skillcoins 10)
                 (update_one (by_id h) (inc_skillcoins 10) (db_userprofile db))\<rparr>)"
proof -
  from assms(2) have "Twelve (doc_id s) = i"
    using find_one_SomeD [of "by_id i" "db_session db" s] by (simp add: by_id_def)
  with assms show ?thesis
    by (simp add: complete_session_def Let_def insert_one_def reward_entry_def)
qed

lemma complete_session_step:
  assumes "oid session_id = Inr i" and "find_one (by_id i) (db_session db) = Some s"
    and "oid (host_id (content s)) = Inr h" and "oid (guest_id (content s)) = Inr g"
    and "complete_session session_id t1 t2 db = (r, db')"
  shows "r = Inr \<lparr>status = ''completed'', skillcoins_awarded = 10\<rparr>"
    and "find_one (by_id i) (db_session db') = Some (set_status ''completed'' s)"
    and "db_rewardtransaction db' = db_rewardtransaction db @
           [reward_entry session_id (host_id (content s)) t1,
            reward_entry session_id (guest_id (content s)) t2]"
    and "get_skillcoins uid db = Inr b \<Longrightarrow> get_skillcoins uid db' = Inr (b + credit h g uid)"
proof -
  note eq = complete_session_ok [OF assms(1-4), of t1 t2]
  from eq assms(5) show "r = Inr \<lparr>status = ''completed'', skillcoins_awarded = 10\<rparr>" by simp
  from eq assms(5) have db': "db' = db\<lparr>db_session := update_one (by_id i) (set_status ''completed'') (db_session db),
               db_rewardtransaction := db_rewardtransaction db @
                 [reward_entry session_id (host_id (content s)) t1,
                  reward_entry session_id (guest_id (content s)) t2],
               db_userprofile := update_one (by_id g) (inc_skillcoins 10)
                 (update_one (by_id h) (inc_skillcoins 10) (db_userprofile db))\<rparr>" by simp
  show "find_one (by_id i) (db_session db') = Some (set_status ''completed'' s)"
    using assms(2) by (simp add: db' find_one_update_one set_status_def)
  show "db_rewardtransaction db' = db_rewardtransaction db @
           [reward_entry session_id (host_id (content s)) t1,
            reward_entry session_id (guest_id (content s)) t2]"
    by (simp add: db')
  show "get_skillcoins uid db' = Inr (b + credit h g uid)" if "get_skillcoins uid db = Inr b"
  proof -
    from that obtain x u where x: "oid uid = Inr x"
        "find_one (by_id x) (db_userprofile db) = Some u" "b = balance_of (content u)"
      by (auto simp: get_skillcoins_def split: sum.splits option.splits)
    have "find_one (by_id x) (db_userprofile db') =
            Some ((if x = g then inc_skillcoins 10 else (\<lambda>d. d))
                    ((if x = h then inc_skillcoins 10 else (\<lambda>d. d)) u))"
      using x(2) by (simp add: db' find_one_update_one inc_skillcoins_def)
    with x(1,3) show ?thesis
      by (auto simp: get_skillcoins_def credit_def balance_inc)
  qed
qed

text \<open>
  What the code does for an existing session whose host and guest ids \<^verbatim>\<open>oid\<close> accepts:
  completing it returns status \<^verbatim>\<open>completed\<close> with 10 awarded, sets the session's status to
  \<^verbatim>\<open>completed\<close>, appends one ledger entry of amount 10 for the host and one for the guest,
  each with the session id in its reason, and raises the balance of the profile of each
  of the two by 10. Completing the same session a second time does all of this again.
\<close>

theorem complete_session_rewards:
  assumes "oid session_id = Inr i" and "find_one (by_id i) (db_session db) = Some s"
    and "oid (host_id (content s)) = Inr h" and "oid (guest_id (content s)) = Inr g"
    and "complete_session session_id t1 t2 db = (r1, db1)"
    and "complete_session session_id t3 t4 db1 = (r2, db2)"
  shows "r1 = Inr \<lparr>status = ''completed'', skillcoins_awarded = 10\<rparr>
       \<and> r2 = Inr \<lparr>status = ''completed'', skillcoins_awarded = 10\<rparr>
       \<and> find_one (by_id i) (db_session db1) = Some (set_status ''completed'' s)
       \<and> find_one (by_id i) (db_session db2) = Some (set_status ''completed'' s)
       \<and> db_rewardtransaction db1 = db_rewardtransaction db @
           [reward_entry session_id (host_id (content s)) t1,
            reward_entry session_id (guest_id (content s)) t2]
       \<and> db_rewardtransaction db2 = db_rewardtransaction db1 @
           [reward_entry session_id (host_id (content s)) t3,
            reward_entry session_id (guest_id (content s)) t4]
       \<and> (\<forall>uid b. get_skillcoins uid db = Inr b \<longrightarrow>
             get_skillcoins uid db1 = Inr (b + credit h g uid) \<and>
             get_skillcoins uid db2 = Inr (b + 2 * credit h g uid))"
proof -
  let ?s1 = "set_status ''completed'' s"
  note first = complete_session_step [OF assms(1-5)]
  have s1: "find_one (by_id i) (db_session db1) = Some ?s1" by (rule first(2))
  have h1: "oid (host_id (content ?s1)) = Inr h" and g1: "oid (guest_id (content ?s1)) = Inr g"
    using assms(3,4) by (simp_all add: set_status_def)
  note second = complete_session_step [OF assms(1) s1 h1 g1 assms(6)]
  have same: "set_status ''completed'' ?s1 = ?s1" "host_id (content ?s1) = host_id (content s)"
      "guest_id (content ?s1) = guest_id (content s)"
    by (simp_all add: set_status_def)
  have bal: "get_skillcoins uid db1 = Inr (b + credit h g uid) \<and>
             get_skillcoins uid db2 = Inr (b + 2 * credit h g uid)"
    if "get_skillcoins uid db = Inr b" for uid b
  proof -
    from first(4) [OF that] have 1: "get_skillcoins uid db1 = Inr (b + credit h g uid)" .
    from second(4) [OF 1] show ?thesis using 1 by simp
  qed
  from first(1,3) second(1,2,3) s1 same bal show ?thesis by simp
qed

theorem complete_session_rewards_witness:
  "oid ''000000000000000000000006'' = Inr (Twelve 6)
   \<and> find_one (by_id (Twelve 6)) (db_session db_scheduled) =
       Some \<lparr>doc_id = 6, content = \<lparr>match_id = ''000000000000000000000005'',
                      topic = Some ''Python'', scheduled_time = None, mode = ''chat'',
                      host_id = ''000000000000000000000002'',
                      guest_id = ''000000000000000000000001'', session_status = ''scheduled''\<rparr>\<rparr>
   \<and> fst (complete_session ''000000000000000000000006'' 7 8 db_scheduled) =
       Inr \<lparr>status = ''completed'', skillcoins_awarded = 10\<rparr>
   \<and> fst (complete_session ''000000000000000000000006'' 9 10
            (snd (complete_session ''000000000000000000000006'' 7 8 db_scheduled))) =
       Inr \<lparr>status = ''completed'', skillcoins_awarded = 10\<rparr>
   \<and> get_skillcoins ''000000000000000000000001'' db_scheduled = Inr 0
   \<and> get_skillcoins ''000000000000000000000001''
        (snd (complete_session ''000000000000000000000006'' 7 8 db_scheduled)) = Inr 10
   \<and> get_skillcoins ''000000000000000000000001''
        (snd (complete_session ''000000000000000000000006'' 9 10
            (snd (complete_session ''000000000000000000000006'' 7 8 db_scheduled)))) = Inr 20
   \<and> length (db_rewardtransaction
        (snd (complete_session ''000000000000000000000006'' 9 10
            (snd (complete_session ''000000000000000000000006'' 7 8 db_scheduled))))) = 4"
proof -
  let ?s = "\<lparr>doc_id = 6, content = \<lparr>match_id = ''000000000000000000000005'',
                      topic = Some ''Python'', scheduled_time = None, mode = ''chat'',
                      host_id = ''000000000000000000000002'',
                      guest_id = ''000000000000000000000001'', session_status = ''scheduled''\<rparr>\<rparr>"
  let ?c1 = "complete_session ''000000000000000000000006'' 7 8 db_scheduled"
  let ?c2 = "complete_session ''000000000000000000000006'' 9 10 (snd ?c1)"
  have s: "find_one (by_id (Twelve 6)) (db_session db_scheduled) = Some ?s"
    by (simp add: db_scheduled_eq find_one_def by_id_def)
  have h: "oid (host_id (content ?s)) = Inr (Twelve 2)" and g: "oid (guest_id (content ?s)) = Inr (Twelve 1)"
    by (simp_all add: oid_1 oid_2)
  have b0: "get_skillcoins ''000000000000000000000001'' db_scheduled = Inr 0"
    by (simp add: get_skillcoins_def oid_1 db_scheduled_eq find_one_def by_id_def
        balance_of_def model_dump_def)
  have cr: "credit (Twelve 2) (Twelve 1) ''000000000000000000000001'' = 10"
    by (simp add: credit_def oid_1)
  have c1: "?c1 = (fst ?c1, snd ?c1)" and c2: "?c2 = (fst ?c2, snd ?c2)" by simp_all
  have r0: "db_rewardtransaction db_scheduled = []" by (simp add: db_scheduled_eq)
  from complete_session_rewards [OF oid_6 s h g c1 c2] b0 cr s r0
  show ?thesis by (simp add: oid_6 del: reward_loop.simps)
qed

subsection \<open>Sessions of stores built from well-formed identifiers\<close>

lemma set_update_one: "set (update_one P f xs) \<subseteq> set xs \<union> f ` set xs"
  by (induction xs) auto

lemma create_or_get_user_db_session:
  "db_session (snd (create_or_get_user payload new_id db)) = db_session db"
  by (simp add: create_or_get_user_def create_document_def Let_def split: option.splits)

lemma swipe_db_session:
  "db_session (snd (swipe payload swipe_id new_match_id db)) = db_session db"
  by (simp add: swipe_def create_document_def Let_def split: option.splits)

lemma reward_loop_db_session:
  "db_session (snd (reward_loop session_id reward us db)) = db_session db"
  by (induction session_id reward us db rule: reward_loop.induct)
     (auto simp: Let_def split: sum.splits)

lemma handle_ids_inv:
  assumes "ids_inv db" and "wellformed_request r"
  shows "ids_inv (handle r db)"
proof (cases r)
  case (CreateOrGetUser payload new_id)
  with assms show ?thesis
    by (simp add: ids_inv_def create_or_get_user_db_match create_or_get_user_db_session)
next
  case (Swipe payload swipe_id new_match_id)
  with assms swipe_db_match [of payload swipe_id new_match_id db] show ?thesis
    by (auto simp: ids_inv_def swipe_db_session new_match_def)
next
  case (CreateSession payload new_id)
  have "wellformed_id (user_a (content m)) \<and> wellformed_id (user_b (content m))"
    if "find_one (by_id i) (db_match db) = Some m" for i m
    using find_one_SomeD [OF that] assms(1) by (simp add: ids_inv_def)
  with CreateSession assms(1) show ?thesis
    by (auto simp: ids_inv_def create_session_def create_document_def
             split: sum.splits option.splits)
next
  case (CompleteSession session_id tx_id1 tx_id2)
  have "wellformed_id (host_id (content s)) \<and> wellformed_id (guest_id (content s))"
    if "s \<in> set (update_one P (set_status v) (db_session db))" for s P v
  proof -
    from that set_update_one [of P "set_status v" "db_session db"]
    consider "s \<in> set (db_session db)" | s' where "s' \<in> set (db_session db)" "s = set_status v s'"
      by auto
    then show ?thesis using assms(1) by cases (auto simp: ids_inv_def set_status_def)
  qed
  with assms(1)
  have "\<forall>s\<in>set (db_session (snd (complete_session session_id tx_id1 tx_id2 db))).
          wellformed_id (host_id (content s)) \<and> wellformed_id (guest_id (content s))"
    by (simp add: ids_inv_def complete_session_snd reward_loop_db_session
          split: sum.splits option.splits del: reward_loop.simps)
  with CompleteSession assms(1) show ?thesis
    by (simp add: ids_inv_def complete_session_db_match)
qed

lemma run_ids_inv: "ids_inv db \<Longrightarrow> \<forall>r\<in>set rs. wellformed_request r \<Longrightarrow> ids_inv (run db rs)"
  by (induction rs arbitrary: db) (simp_all add: handle_ids_inv)

lemma ids_inv_empty: "ids_inv empty_store"
  by (simp add: ids_inv_def empty_store_def)

text \<open>
  On every store built from the empty one by well-formed requests, completing an existing
  session succeeds with all its effects, also a second time: what goes wrong below needs
  a swipe with an id that is no identifier.
\<close>

lemma complete_session_wellformed_store:
  assumes "\<forall>r\<in>set reqs. wellformed_request r"
    and "oid session_id = Inr i"
    and "find_one (by_id i) (db_session (run empty_store reqs)) = Some s"
    and "complete_session session_id t1 t2 (run empty_store reqs) = (r1, db1)"
    and "complete_session session_id t3 t4 db1 = (r2, db2)"
  shows "r1 = Inr \<lparr>status = ''completed'', skillcoins_awarded = 10\<rparr>
       \<and> r2 = Inr \<lparr>status = ''completed'', skillcoins_awarded = 10\<rparr>
       \<and> find_one (by_id i) (db_session db1) = Some (set_status ''completed'' s)
       \<and> db_rewardtransaction db1 = db_rewardtransaction (run empty_store reqs) @
           [reward_entry session_id (host_id (content s)) t1,
            reward_entry session_id (guest_id (content s)) t2]
       \<and> db_rewardtransaction db2 = db_rewardtransaction db1 @
           [reward_entry session_id (host_id (content s)) t3,
            reward_entry session_id (guest_id (content s)) t4]"
proof -
  have "ids_inv (run empty_store reqs)"
    using assms(1) by (intro run_ids_inv ids_inv_empty)
  with find_one_SomeD [OF assms(3)]
  have "wellformed_id (host_id (content s))" "wellformed_id (guest_id (content s))"
    by (simp_all add: ids_inv_def)
  then obtain h g where "oid (host_id (content s)) = Inr h" "oid (guest_id (content s)) = Inr g"
    by (auto simp: wellformed_id_def oid_def)
  from complete_session_rewards [OF assms(2,3) this assms(4,5)] show ?thesis by simp
qed

text \<open>
  C3. The claim is that completing any existing session succeeds, writes a ledger entry
  of 10 for host and for guest and credits both. The code does so whenever \<^verbatim>\<open>oid\<close> accepts
  the session's host and guest ids, but \<^verbatim>\<open>swipe\<close> stores ids it never validated, matches
  and sessions copy them, and the reward loop converts them only after it has written.
  In the store reached by two swipes between \<^verbatim>\<open>alice\<close> and \<^verbatim>\<open>bob\<close> and a session creation,
  completing the session sets its status to \<^verbatim>\<open>completed\<close>, writes the host's ledger
  entry and then fails with the 400 exception: no success response, nothing for the
  guest, no profile credited.
\<close>

theorem complete_session_malformed_host:
  "find_one (by_id (Twelve 4)) (db_session db_named) =
     Some \<lparr>doc_id = 4, content = \<lparr>match_id = ''000000000000000000000003'',
            topic = Some ''Python'', scheduled_time = None, mode = ''chat'',
            host_id = ''bob'', guest_id = ''alice'', session_status = ''scheduled''\<rparr>\<rparr>
   \<and> fst (complete_session ''000000000000000000000004'' 5 6 db_named) =
       Inl (HTTPException 400 ''Invalid id'')
   \<and> db_session (snd (complete_session ''000000000000000000000004'' 5 6 db_named)) =
       [\<lparr>doc_id = 4, content = \<lparr>match_id = ''000000000000000000000003'',
            topic = Some ''Python'', scheduled_time = None, mode = ''chat'',
            host_id = ''bob'', guest_id = ''alice'', session_status = ''completed''\<rparr>\<rparr>]
   \<and> db_rewardtransaction (snd (complete_session ''000000000000000000000004'' 5 6 db_named)) =
       [reward_entry ''000000000000000000000004'' ''bob'' 5]
   \<and> db_userprofile (snd (complete_session ''000000000000000000000004'' 5 6 db_named)) =
       db_userprofile db_named"
  by (simp add: db_named_eq find_one_def by_id_def complete_session_def oid_4 oid_bad
      insert_one_def reward_entry_def set_status_def)

section \<open>Malformed identifiers\<close>

text \<open>
  The handlers that convert an identifier with \<^verbatim>\<open>oid\<close> before anything else reject a
  malformed one with the 400 exception and leave the store unchanged.
\<close>

lemma malformed_id_rejected:
  assumes "ObjectId s = None"
  shows "recommendations str_lower s limit db = Inl (HTTPException 400 ''Invalid id'')"
    and "match_id payload = s \<Longrightarrow>
           create_session payload new_id db = (Inl (HTTPException 400 ''Invalid id''), db)"
    and "complete_session s t1 t2 db = (Inl (HTTPException 400 ''Invalid id''), db)"
    and "get_skillcoins s db = Inl (HTTPException 400 ''Invalid id'')"
  using assms
  by (simp_all add: oid_def recommendations_def create_session_def complete_session_def
      get_skillcoins_def)

text \<open>
  C9. The claim is that every handler that accepts an identifier rejects a malformed one
  with the 400 exception and changes nothing. \<^verbatim>\<open>swipe\<close> and \<^verbatim>\<open>get_matches\<close> never call
  \<^verbatim>\<open>oid\<close> on their arguments: for the string \<^verbatim>\<open>not-an-id\<close>, which \<^verbatim>\<open>oid\<close> refuses, the swipe
  is recorded and persisted, and the listing of matches returns the empty list.
\<close>

theorem malformed_id_accepted:
  "oid ''not-an-id'' = Inl (HTTPException 400 ''Invalid id'')
   \<and> swipe \<lparr>user_id = ''not-an-id'', target_id = ''000000000000000000000002'', action = ''like''\<rparr>
        1 2 empty_store =
       (Inr Recorded,
        empty_store\<lparr>db_swipe :=
          [\<lparr>doc_id = 1, content = \<lparr>user_id = ''not-an-id'',
             target_id = ''000000000000000000000002'', action = ''like''\<rparr>\<rparr>]\<rparr>)
   \<and> get_matches ''not-an-id'' empty_store = Inr []"
  by (simp add: oid_bad swipe_def create_document_def empty_store_def find_one_def
      mutual_filter_def get_matches_def find_many_def)

end
